theory Spec2Isabelle
  imports Main
begin

section \<open>JavaScript strings and regular expressions\<close>

text \<open>
  The converters of this repository are chains of \<^verbatim>\<open>String.prototype.replace\<close> calls with
  regular-expression literals. A JavaScript string is modelled as a \<^typ>\<open>string\<close>: one
  \<^typ>\<open>char\<close> per code unit, for the code units \<open>0x00\<close> to \<open>0xFF\<close>. The character classes
  below are the ECMAScript ones cut down to that range.
\<close>

definition LineTerminator :: "char \<Rightarrow> bool" where
  "LineTerminator c = (c = CHR 0x0A \<or> c = CHR 0x0D)"

definition WhiteSpace :: "char \<Rightarrow> bool" where
  \<comment> \<open>\<^verbatim>\<open>\s\<close>: TAB, LF, VT, FF, CR, SP, NBSP\<close>
  "WhiteSpace c = (c = CHR 0x09 \<or> c = CHR 0x0A \<or> c = CHR 0x0B \<or> c = CHR 0x0C \<or>
                   c = CHR 0x0D \<or> c = CHR 0x20 \<or> c = CHR 0xA0)"

definition DecimalDigit :: "char \<Rightarrow> bool" where
  \<comment> \<open>\<^verbatim>\<open>\d\<close>\<close>
  "DecimalDigit c = (let n = (of_char c :: nat) in 48 \<le> n \<and> n \<le> 57)"

definition WordCharacter :: "char \<Rightarrow> bool" where
  \<comment> \<open>\<^verbatim>\<open>\w\<close>: letters, digits and the underscore\<close>
  "WordCharacter c = (let n = (of_char c :: nat) in
     (97 \<le> n \<and> n \<le> 122) \<or> (65 \<le> n \<and> n \<le> 90) \<or> (48 \<le> n \<and> n \<le> 57) \<or> n = 95)"

text \<open>A class atom of a pattern: it matches exactly one character.\<close>

datatype cls =
    Ch char             \<comment> \<open>a literal character\<close>
  | Dot                 \<comment> \<open>\<^verbatim>\<open>.\<close> (without the \<^verbatim>\<open>s\<close> flag: anything but a line terminator)\<close>
  | Space               \<comment> \<open>\<^verbatim>\<open>\s\<close>\<close>
  | NonSpace            \<comment> \<open>\<^verbatim>\<open>\S\<close>\<close>
  | Word                \<comment> \<open>\<^verbatim>\<open>\w\<close>\<close>
  | Digit               \<comment> \<open>\<^verbatim>\<open>\d\<close>\<close>
  | OneOf "cls list"    \<comment> \<open>\<^verbatim>\<open>[...]\<close>\<close>
  | NoneOf "cls list"   \<comment> \<open>\<^verbatim>\<open>[^...]\<close>\<close>

fun cls_mem :: "cls \<Rightarrow> char \<Rightarrow> bool" where
  "cls_mem (Ch a) c = (c = a)"
| "cls_mem Dot c = (\<not> LineTerminator c)"
| "cls_mem Space c = WhiteSpace c"
| "cls_mem NonSpace c = (\<not> WhiteSpace c)"
| "cls_mem Word c = WordCharacter c"
| "cls_mem Digit c = DecimalDigit c"
| "cls_mem (OneOf xs) c = (\<exists>x \<in> set xs. cls_mem x c)"
| "cls_mem (NoneOf xs) c = (\<not> (\<exists>x \<in> set xs. cls_mem x c))"

text \<open>
  The patterns of this repository have no alternation, no backreference and no quantified
  group: each is a sequence of class atoms, quantified class atoms, the assertions
  \<^verbatim>\<open>^\<close> and \<^verbatim>\<open>$\<close>, and capture parentheses. \<open>Rep greedy min max c\<close> is the atom \<open>c\<close>
  under a quantifier (\<open>max = None\<close> for no upper bound).
\<close>

datatype item =
    Lit cls
  | Rep bool nat "nat option" cls
  | Bol
  | Eol
  | Open nat
  | Close nat

record regex =
  items :: "item list"
  multiline :: bool
  global :: bool

text \<open>
  The matcher state: the character before the current position (if any), the input
  from the current position on, where each open group started, and the captures made.
\<close>

datatype mstate = MState (prev: "char option") (rest: string)
  (opens: "(nat \<times> string) list") (caps: "(nat \<times> string) list")

type_synonym cont = "mstate \<Rightarrow> mstate option"

fun dec :: "nat option \<Rightarrow> nat option" where
  "dec None = None"
| "dec (Some n) = Some (n - 1)"

text \<open>
  ECMAScript's RepeatMatcher for a one-character atom, with backtracking: a greedy
  quantifier tries one more repetition first and falls back to the continuation, a lazy
  one tries the continuation first.
\<close>

function rep :: "bool \<Rightarrow> cls \<Rightarrow> nat \<Rightarrow> nat option \<Rightarrow> cont \<Rightarrow> mstate \<Rightarrow> mstate option" where
  "rep g p lo hi k (MState pv [] os cs) = (if lo = 0 then k (MState pv [] os cs) else None)"
| "rep g p lo hi k (MState pv (c # r) os cs) =
     (if hi = Some 0 \<or> \<not> cls_mem p c then
        (if lo = 0 then k (MState pv (c # r) os cs) else None)
      else if 0 < lo then rep g p (lo - 1) (dec hi) k (MState (Some c) r os cs)
      else if g then
        (case rep g p 0 (dec hi) k (MState (Some c) r os cs) of
           Some s \<Rightarrow> Some s
         | None \<Rightarrow> k (MState pv (c # r) os cs))
      else
        (case k (MState pv (c # r) os cs) of
           Some s \<Rightarrow> Some s
         | None \<Rightarrow> rep g p 0 (dec hi) k (MState (Some c) r os cs)))"
  by pat_completeness auto
termination
  by (relation "measure (\<lambda>(g, p, lo, hi, k, st). length (rest st))") auto

fun at_bol :: "bool \<Rightarrow> char option \<Rightarrow> bool" where
  "at_bol ml None = True"
| "at_bol ml (Some c) = (ml \<and> LineTerminator c)"

fun at_eol :: "bool \<Rightarrow> string \<Rightarrow> bool" where
  "at_eol ml [] = True"
| "at_eol ml (c # r) = (ml \<and> LineTerminator c)"

fun capture :: "(nat \<times> string) list \<Rightarrow> nat \<Rightarrow> string \<Rightarrow> string" where
  "capture os n r =
     (case map_of os n of None \<Rightarrow> [] | Some r0 \<Rightarrow> take (length r0 - length r) r0)"

fun step :: "bool \<Rightarrow> item \<Rightarrow> cont \<Rightarrow> mstate \<Rightarrow> mstate option" where
  "step ml (Lit p) k (MState pv [] os cs) = None"
| "step ml (Lit p) k (MState pv (c # r) os cs) =
     (if cls_mem p c then k (MState (Some c) r os cs) else None)"
| "step ml (Rep g lo hi p) k st = rep g p lo hi k st"
| "step ml Bol k (MState pv r os cs) = (if at_bol ml pv then k (MState pv r os cs) else None)"
| "step ml Eol k (MState pv r os cs) = (if at_eol ml r then k (MState pv r os cs) else None)"
| "step ml (Open n) k (MState pv r os cs) = k (MState pv r ((n, r) # os) cs)"
| "step ml (Close n) k (MState pv r os cs) = k (MState pv r os ((n, capture os n r) # cs))"

primrec matcher :: "bool \<Rightarrow> item list \<Rightarrow> cont \<Rightarrow> cont" where
  "matcher ml [] k = k"
| "matcher ml (x # xs) k = step ml x (matcher ml xs k)"

definition match_at :: "regex \<Rightarrow> char option \<Rightarrow> string \<Rightarrow> mstate option" where
  \<comment> \<open>one attempt to match at the current position\<close>
  "match_at re pv r = matcher (multiline re) (items re) Some (MState pv r [] [])"

fun is_open :: "item \<Rightarrow> bool" where
  "is_open (Open n) = True"
| "is_open _ = False"

definition ngroups :: "regex \<Rightarrow> nat" where
  "ngroups re = length (filter is_open (items re))"

text \<open>
  What a replacement sees of one match: the matched text, the captures \<open>$1 .. $n\<close>
  (\<open>None\<close> for a group that took no part), the input before and after the match.
\<close>

record jsmatch =
  matched :: string
  groups :: "string option list"
  before :: string
  after :: string

definition group :: "jsmatch \<Rightarrow> nat \<Rightarrow> string" where
  \<comment> \<open>capture \<open>n\<close> (from 1) as a string; an undefined capture reads as the empty string\<close>
  "group mt n = (if 1 \<le> n \<and> n \<le> length (groups mt)
                 then (case groups mt ! (n - 1) of None \<Rightarrow> [] | Some g \<Rightarrow> g) else [])"

definition mk_match :: "regex \<Rightarrow> string \<Rightarrow> string \<Rightarrow> mstate \<Rightarrow> jsmatch" where
  "mk_match re bef r st =
     \<lparr> matched = take (length r - length (rest st)) r,
       groups = map (\<lambda>n. map_of (caps st) n) [1 ..< Suc (ngroups re)],
       before = rev bef,
       after = rest st \<rparr>"

definition digit_val :: "char \<Rightarrow> nat" where
  "digit_val c = of_char c - 48"

text \<open>
  GetSubstitution: the \<^verbatim>\<open>$\<close> patterns of a replacement string. A two-digit reference
  beyond the number of groups is a one-digit reference followed by a digit; a reference
  to no group is literal text.
\<close>

fun expand :: "string \<Rightarrow> jsmatch \<Rightarrow> string" where
  "expand [] mt = []"
| "expand [c] mt = [c]"
| "expand (c # d # t) mt =
     (if c \<noteq> CHR ''$'' then c # expand (d # t) mt
      else if d = CHR ''$'' then CHR ''$'' # expand t mt
      else if d = CHR ''&'' then matched mt @ expand t mt
      else if d = CHR 0x60 then before mt @ expand t mt
      else if d = CHR 0x27 then after mt @ expand t mt
      else if DecimalDigit d then
        (case t of
           e # t' \<Rightarrow>
             if DecimalDigit e \<and> 1 \<le> digit_val d * 10 + digit_val e
                \<and> digit_val d * 10 + digit_val e \<le> length (groups mt)
             then group mt (digit_val d * 10 + digit_val e) @ expand t' mt
             else if 1 \<le> digit_val d \<and> digit_val d \<le> length (groups mt)
             then group mt (digit_val d) @ expand t mt
             else c # d # expand t mt
         | [] \<Rightarrow>
             if 1 \<le> digit_val d \<and> digit_val d \<le> length (groups mt)
             then group mt (digit_val d) @ expand t mt
             else c # d # expand t mt)
      else c # expand (d # t) mt)"

text \<open>
  \<^verbatim>\<open>String.prototype.replace\<close> with a regular expression. The search moves through the
  input one position at a time; after a match it resumes behind the match (one position
  further when the match was empty), or stops when the pattern has no \<^verbatim>\<open>g\<close> flag.
  \<open>bef\<close> is the input before the current position, reversed.
\<close>

fun prevc :: "string \<Rightarrow> char option" where
  "prevc [] = None"
| "prevc (c # bef) = Some c"

function replace_from :: "regex \<Rightarrow> (jsmatch \<Rightarrow> string) \<Rightarrow> string \<Rightarrow> string \<Rightarrow> string" where
  "replace_from re f bef [] =
     (case match_at re (prevc bef) [] of
        None \<Rightarrow> []
      | Some st \<Rightarrow> f (mk_match re bef [] st))"
| "replace_from re f bef (c # r) =
     (case match_at re (prevc bef) (c # r) of
        None \<Rightarrow> c # replace_from re f (c # bef) r
      | Some st \<Rightarrow>
          (if \<not> global re then f (mk_match re bef (c # r) st) @ rest st
           else if length (rest st) < length (c # r)
           then f (mk_match re bef (c # r) st)
                @ replace_from re f (rev (matched (mk_match re bef (c # r) st)) @ bef) (rest st)
           else f (mk_match re bef (c # r) st) @ c # replace_from re f (c # bef) r))"
  by pat_completeness auto
termination
  by (relation "measure (\<lambda>(re, f, bef, r). length r)") auto

definition replace_fn :: "regex \<Rightarrow> (jsmatch \<Rightarrow> string) \<Rightarrow> string \<Rightarrow> string" where
  \<comment> \<open>\<^verbatim>\<open>s.replace(re, (match, p1, ...) => ...)\<close>\<close>
  "replace_fn re f s = replace_from re f [] s"

definition replace :: "regex \<Rightarrow> string \<Rightarrow> string \<Rightarrow> string" where
  \<comment> \<open>\<^verbatim>\<open>s.replace(re, 'template')\<close>\<close>
  "replace re tmpl s = replace_from re (expand tmpl) [] s"


section \<open>DOCX to AsciiDoc: the Markdown rewriter (docx2ascii.ts)\<close>

text \<open>
  \<^verbatim>\<open>DocxToAsciidocOptions\<close>. Every field is optional in the source; \<open>None\<close> is
  \<^verbatim>\<open>undefined\<close>. \<open>headingLevel\<close> is documented as 0 to 5 and is a natural number here.
  \<open>attributes\<close> holds the entries of the attribute object in the order
  \<^verbatim>\<open>Object.entries\<close> yields them.
\<close>

datatype codeBlockStyle = fenced | indented

record DocxToAsciidocOptions =
  headingLevel :: "nat option"
  includeAttributes :: "bool option"
  attributes :: "(string \<times> string) list option"
  preserveLineBreaks :: "bool option"
  codeBlockStyle :: "codeBlockStyle option"
  includeToc :: "bool option"

definition truthy :: "bool option \<Rightarrow> bool" where
  "truthy b = (b = Some True)"

definition or_zero :: "nat option \<Rightarrow> nat" where
  \<comment> \<open>\<^verbatim>\<open>options.headingLevel || 0\<close>\<close>
  "or_zero n = (case n of None \<Rightarrow> 0 | Some k \<Rightarrow> k)"

definition re_heading :: regex where
  \<comment> \<open>\<^verbatim>\<open>/^(#{1,6})\s+(.+)$/gm\<close>\<close>
  "re_heading = \<lparr> items = [Bol, Open 1, Rep True 1 (Some 6) (Ch CHR ''#''), Close 1,
                             Rep True 1 None Space,
                             Open 2, Rep True 1 None Dot, Close 2, Eol],
                   multiline = True, global = True \<rparr>"

definition re_bold :: regex where
  \<comment> \<open>\<^verbatim>\<open>/\*\*(.*?)\*\*/g\<close>\<close>
  "re_bold = \<lparr> items = [Lit (Ch CHR ''*''), Lit (Ch CHR ''*''),
                          Open 1, Rep False 0 None Dot, Close 1,
                          Lit (Ch CHR ''*''), Lit (Ch CHR ''*'')],
                multiline = False, global = True \<rparr>"

definition re_italic :: regex where
  \<comment> \<open>\<^verbatim>\<open>/_(.*?)_/g\<close>\<close>
  "re_italic = \<lparr> items = [Lit (Ch CHR ''_''), Open 1, Rep False 0 None Dot, Close 1,
                            Lit (Ch CHR ''_'')],
                  multiline = False, global = True \<rparr>"

definition re_code_lang :: regex where
  \<comment> \<open>\<^verbatim>\<open>/```(\w+)\n([\s\S]*?)```/g\<close>\<close>
  "re_code_lang = \<lparr> items = [Lit (Ch CHR 0x60), Lit (Ch CHR 0x60), Lit (Ch CHR 0x60),
                               Open 1, Rep True 1 None Word, Close 1,
                               Lit (Ch CHR 0x0A),
                               Open 2, Rep False 0 None (OneOf [Space, NonSpace]), Close 2,
                               Lit (Ch CHR 0x60), Lit (Ch CHR 0x60), Lit (Ch CHR 0x60)],
                     multiline = False, global = True \<rparr>"

definition re_code_plain :: regex where
  \<comment> \<open>\<^verbatim>\<open>/```\n([\s\S]*?)```/g\<close>\<close>
  "re_code_plain = \<lparr> items = [Lit (Ch CHR 0x60), Lit (Ch CHR 0x60), Lit (Ch CHR 0x60),
                                Lit (Ch CHR 0x0A),
                                Open 1, Rep False 0 None (OneOf [Space, NonSpace]), Close 1,
                                Lit (Ch CHR 0x60), Lit (Ch CHR 0x60), Lit (Ch CHR 0x60)],
                      multiline = False, global = True \<rparr>"

definition re_inline_code :: regex where
  \<comment> \<open>\<^verbatim>\<open>/`([^`]+)`/g\<close>\<close>
  "re_inline_code = \<lparr> items = [Lit (Ch CHR 0x60),
                                 Open 1, Rep True 1 None (NoneOf [Ch CHR 0x60]), Close 1,
                                 Lit (Ch CHR 0x60)],
                       multiline = False, global = True \<rparr>"

definition re_quote :: regex where
  \<comment> \<open>\<^verbatim>\<open>/^>\s+(.+)$/gm\<close>\<close>
  "re_quote = \<lparr> items = [Bol, Lit (Ch CHR ''>''), Rep True 1 None Space,
                           Open 1, Rep True 1 None Dot, Close 1, Eol],
                 multiline = True, global = True \<rparr>"

definition re_link :: regex where
  \<comment> \<open>\<^verbatim>\<open>/\[(.*?)\]\((.*?)\)/g\<close>\<close>
  "re_link = \<lparr> items = [Lit (Ch CHR ''[''), Open 1, Rep False 0 None Dot, Close 1,
                          Lit (Ch CHR '']''), Lit (Ch CHR ''(''),
                          Open 2, Rep False 0 None Dot, Close 2, Lit (Ch CHR '')'')],
                multiline = False, global = True \<rparr>"

definition re_ordered :: regex where
  \<comment> \<open>\<^verbatim>\<open>/^\d+\.\s+(.+)$/gm\<close>\<close>
  "re_ordered = \<lparr> items = [Bol, Rep True 1 None Digit, Lit (Ch CHR ''.''),
                             Rep True 1 None Space,
                             Open 1, Rep True 1 None Dot, Close 1, Eol],
                   multiline = True, global = True \<rparr>"

definition heading_repl :: "DocxToAsciidocOptions \<Rightarrow> jsmatch \<Rightarrow> string" where
  \<comment> \<open>the callback of the heading substitution: \<^verbatim>\<open>`${'='.repeat(level)} ${content}`\<close>\<close>
  "heading_repl options mt =
     (let level = length (group mt 1) + or_zero (headingLevel options)
      in replicate level CHR ''='' @ '' '' @ group mt 2)"

definition code_lang_repl :: "jsmatch \<Rightarrow> string" where
  \<comment> \<open>\<^verbatim>\<open>`[source,${lang}]\n----\n${code}----\n`\<close>\<close>
  "code_lang_repl mt =
     ''[source,'' @ group mt 1 @ '']\<newline>----\<newline>'' @ group mt 2 @ ''----\<newline>''"

definition markdownToAsciidoc :: "string \<Rightarrow> DocxToAsciidocOptions \<Rightarrow> string" where
  "markdownToAsciidoc markdown options =
     (let asciidoc = markdown;
          \<comment> \<open>Convert headers\<close>
          asciidoc = replace_fn re_heading (heading_repl options) asciidoc;
          \<comment> \<open>Convert bold\<close>
          asciidoc = replace re_bold ''*$1*'' asciidoc;
          \<comment> \<open>Convert italic\<close>
          asciidoc = replace re_italic ''_$1_'' asciidoc;
          \<comment> \<open>Convert code blocks with language specification\<close>
          asciidoc = replace_fn re_code_lang code_lang_repl asciidoc;
          \<comment> \<open>Convert simple code blocks\<close>
          asciidoc = replace re_code_plain ''----\<newline>$1----\<newline>'' asciidoc;
          \<comment> \<open>Convert inline code\<close>
          asciidoc = replace re_inline_code (CHR 0x60 # ''$1'' @ [CHR 0x60]) asciidoc;
          \<comment> \<open>Convert block quotes\<close>
          asciidoc = replace re_quote ''[quote]\<newline>____\<newline>$1\<newline>____\<newline>'' asciidoc;
          \<comment> \<open>Convert links\<close>
          asciidoc = replace re_link ''link:$2[$1]'' asciidoc;
          \<comment> \<open>Convert ordered lists\<close>
          asciidoc = replace re_ordered ''. $1'' asciidoc
      in asciidoc)"

section \<open>DOCX to AsciiDoc: post-processing\<close>

definition re_first_heading :: regex where
  \<comment> \<open>\<^verbatim>\<open>/^(=+\s+.+)$/m\<close>\<close>
  "re_first_heading = \<lparr> items = [Bol, Open 1, Rep True 1 None (Ch CHR ''=''),
                                   Rep True 1 None Space, Rep True 1 None Dot, Close 1, Eol],
                         multiline = True, global = False \<rparr>"

definition re_join :: regex where
  \<comment> \<open>\<^verbatim>\<open>/([^=\-*.\n])\n([^=\-*.\n\s])/g\<close>\<close>
  "re_join = \<lparr> items = [Open 1, Lit (NoneOf [Ch CHR ''='', Ch CHR ''-'', Ch CHR ''*'',
                                                  Ch CHR ''.'', Ch CHR 0x0A]), Close 1,
                          Lit (Ch CHR 0x0A),
                          Open 2, Lit (NoneOf [Ch CHR ''='', Ch CHR ''-'', Ch CHR ''*'',
                                                  Ch CHR ''.'', Ch CHR 0x0A, Space]), Close 2],
                multiline = False, global = True \<rparr>"

definition re_table :: regex where
  \<comment> \<open>\<^verbatim>\<open>/\|\n\|/g\<close>\<close>
  "re_table = \<lparr> items = [Lit (Ch CHR ''|''), Lit (Ch CHR 0x0A), Lit (Ch CHR ''|'')],
                 multiline = False, global = True \<rparr>"

fun custom_attributes :: "(string \<times> string) list \<Rightarrow> string" where
  \<comment> \<open>the loop over \<^verbatim>\<open>Object.entries(options.attributes)\<close>\<close>
  "custom_attributes [] = []"
| "custom_attributes ((key, val) # es) =
     '':'' @ key @ '': '' @ val @ ''\<newline>'' @ custom_attributes es"

definition attribute_block :: "DocxToAsciidocOptions \<Rightarrow> string" where
  "attribute_block options =
     ''Author Name <author@example.com>\<newline>''
     @ '':toc: left\<newline>''
     @ '':icons: font\<newline>''
     @ '':source-highlighter: highlight.js\<newline>''
     @ (case attributes options of None \<Rightarrow> [] | Some es \<Rightarrow> custom_attributes es)
     @ (if truthy (includeToc options) then '':toc:\<newline>'' @ '':toclevels: 3\<newline>'' else [])"

fun startsWith :: "string \<Rightarrow> char \<Rightarrow> bool" where
  "startsWith [] a = False"
| "startsWith (c # s) a = (c = a)"

definition postProcessAsciidoc :: "string \<Rightarrow> DocxToAsciidocOptions \<Rightarrow> string" where
  "postProcessAsciidoc asciidoc options =
     (let result = asciidoc;
          \<comment> \<open>Add document header if not present\<close>
          result = (if \<not> startsWith result CHR ''='' then ''= Document Title\<newline>\<newline>'' @ result
                    else result);
          \<comment> \<open>Add document attributes if requested\<close>
          result = (if truthy (includeAttributes options)
                    then replace re_first_heading (''$1\<newline>'' @ attribute_block options) result
                    else result);
          \<comment> \<open>Clean up line breaks\<close>
          result = (if \<not> truthy (preserveLineBreaks options)
                    then replace re_join ''$1 $2'' result
                    else result);
          \<comment> \<open>Fix table format issues\<close>
          result = replace re_table ''|\<newline>|'' result
      in result)"

definition convert_text :: "string \<Rightarrow> DocxToAsciidocOptions \<Rightarrow> string" where
  \<comment> \<open>steps 4 and 5 of \<^verbatim>\<open>convertDocxToAsciidoc\<close>: the two stages, in this order\<close>
  "convert_text markdown options =
     postProcessAsciidoc (markdownToAsciidoc markdown options) options"


section \<open>Thrown errors and effects\<close>

text \<open>
  A thrown \<^verbatim>\<open>Error\<close> (or a rejected promise) is its message. A function with effects takes
  the state and returns the outcome (\<open>Inl\<close> the error thrown) with the state it leaves.
  The asynchronous calls are awaited one after the other in the source, so they are
  sequenced here.
\<close>

type_synonym error = string

type_synonym ('a, 's) io = "'s \<Rightarrow> (error + 'a) \<times> 's"

definition ret :: "'a \<Rightarrow> ('a, 's) io" where
  "ret x s = (Inr x, s)"

definition throw :: "error \<Rightarrow> ('a, 's) io" where
  "throw e s = (Inl e, s)"

definition and_then :: "('a, 's) io \<Rightarrow> ('a \<Rightarrow> ('b, 's) io) \<Rightarrow> ('b, 's) io" where
  "and_then m f s = (case m s of (Inl e, s') \<Rightarrow> (Inl e, s') | (Inr x, s') \<Rightarrow> f x s')"

definition try_catch :: "('a, 's) io \<Rightarrow> (error \<Rightarrow> ('a, 's) io) \<Rightarrow> ('a, 's) io" where
  "try_catch m h s = (case m s of (Inl e, s') \<Rightarrow> h e s' | (Inr x, s') \<Rightarrow> (Inr x, s'))"


section \<open>Node's file system and the document libraries\<close>

text \<open>
  The file system and the libraries (asciidoctor, html-to-docx, mammoth) are not code of
  this repository: they are parameters. \<open>'w\<close> is the state of the file system.
  \<^verbatim>\<open>fs.existsSync\<close> never throws; the other calls may.
\<close>

record margins =
  top :: "nat option"
  right :: "nat option"
  bottom :: "nat option"
  left :: "nat option"

datatype orientation = portrait | landscape

record DocxConversionOptions =
  title :: "string option"
  margins :: "margins option"
  header :: "string option"
  footer :: "string option"
  orientation :: "orientation option"
  author :: "string option"
  fontSize :: "nat option"
  templatePath :: "string option"

record conversionConfig =
  cfg_title :: string
  cfg_margins :: margins
  cfg_orientation :: orientation
  cfg_header :: "string option"
  cfg_footer :: "string option"
  cfg_author :: "string option"
  cfg_fontSize :: "nat option"

record 'w node =
  existsSync :: "'w \<Rightarrow> string \<Rightarrow> bool"
  readFileSync :: "'w \<Rightarrow> string \<Rightarrow> error + string"
  mkdirSync :: "string \<Rightarrow> 'w \<Rightarrow> (error + unit) \<times> 'w"
  writeFileSync :: "string \<Rightarrow> string \<Rightarrow> 'w \<Rightarrow> (error + unit) \<times> 'w"
  dirname :: "string \<Rightarrow> string"
  asciidoctor_convert :: "string \<Rightarrow> error + string"
  HTMLtoDOCX :: "string \<Rightarrow> string option \<Rightarrow> conversionConfig \<Rightarrow> error + string"
  extractRawText :: "'w \<Rightarrow> string \<Rightarrow> error + string"

text \<open>The calls made to the outside, in order, are kept with the state.\<close>

datatype call =
    ReadFile string
  | Generate string "string option" conversionConfig
  | Mkdir string
  | WriteFile string string

record 'w world =
  fs :: 'w
  calls :: "call list"


definition pure_call :: "error + 'a \<Rightarrow> ('a, 's) io" where
  \<comment> \<open>a call that reads the state only: it returns or throws\<close>
  "pure_call r s = (r, s)"


section \<open>validateDocxFile (docx2ascii.ts)\<close>

definition validateDocxFile :: "'w node \<Rightarrow> string \<Rightarrow> (bool, 'w world) io" where
  "validateDocxFile env filePath =
     try_catch
       (\<lambda>s. if \<not> existsSync env (fs s) filePath then ret False s
            else and_then (pure_call (extractRawText env (fs s) filePath))
                          (\<lambda>_. ret True) s)
       (\<lambda>error. ret False)"

section \<open>convertAsciidocToDocx (ascii2docx.ts)\<close>







section \<open>GeoConverter (ascii2docx.ts, second part)\<close>

text \<open>
  DuckDB is a parameter: \<open>'w\<close> is the state of a database, \<open>new_database\<close> is
  \<^verbatim>\<open>new duckdb.Database(':memory:')\<close>, \<open>connect\<close> is \<^verbatim>\<open>db.connect\<close>, \<open>exec\<close> is
  \<^verbatim>\<open>conn.exec\<close> and \<open>all_rows\<close> is \<^verbatim>\<open>conn.all\<close>. A row is the list of its columns;
  \<open>'v\<close> is the type of the values in it. The class keeps \<^verbatim>\<open>db\<close> and \<^verbatim>\<open>conn\<close> in static
  fields: \<open>conn\<close> tells whether \<^verbatim>\<open>this.conn\<close> is set. \<open>stmts\<close> lists the statements
  handed to the engine so far.

  A \<^verbatim>\<open>GeoFormat\<close> is a string at run time: the switches have a default branch for the
  values outside the type. In the statement texts every run of blanks and line breaks of
  the template literal is one space, and there is none at either end.
\<close>

type_synonym GeoFormat = string

type_synonym 'v row = "(string \<times> 'v) list"

record ('w, 'v) engine =
  new_database :: "error + 'w"
  connect :: "'w \<Rightarrow> error + unit"
  exec :: "string \<Rightarrow> 'w \<Rightarrow> (error + unit) \<times> 'w"
  all_rows :: "string \<Rightarrow> 'w \<Rightarrow> (error + 'v row list) \<times> 'w"

record 'w geo =
  conn :: bool
  db :: 'w
  stmts :: "string list"

definition conn_exec :: "('w, 'v) engine \<Rightarrow> string \<Rightarrow> (unit, 'w geo) io" where
  "conn_exec E sql s =
     (case exec E sql (db s) of (r, w) \<Rightarrow> (r, s\<lparr>db := w, stmts := stmts s @ [sql]\<rparr>))"

definition query :: "('w, 'v) engine \<Rightarrow> string \<Rightarrow> ('v row list, 'w geo) io" where
  "query E sql s =
     (case all_rows E sql (db s) of (r, w) \<Rightarrow> (r, s\<lparr>db := w, stmts := stmts s @ [sql]\<rparr>))"

definition install_sql :: string where
  "install_sql = ''INSTALL spatial; LOAD spatial;''"

definition init :: "('w, 'v) engine \<Rightarrow> (unit, 'w geo) io" where
  "init E =
     and_then (\<lambda>s. case new_database E of
                      Inl e \<Rightarrow> (Inl e, s)
                    | Inr w \<Rightarrow> (Inr (), s\<lparr>db := w\<rparr>)) (\<lambda>_.
     and_then (\<lambda>s. case connect E (db s) of
                      Inl e \<Rightarrow> (Inl e, s)
                    | Inr _ \<Rightarrow> (Inr (), s\<lparr>conn := True\<rparr>)) (\<lambda>_.
     conn_exec E install_sql))"

definition quoted :: "string \<Rightarrow> string" where
  \<comment> \<open>\<^verbatim>\<open>'${...}'\<close>: the text between single quotes, not escaped\<close>
  "quoted x = CHR 0x27 # x @ [CHR 0x27]"

definition lower :: "char \<Rightarrow> char" where
  \<comment> \<open>lower case of one code unit below \<open>0x100\<close>: A to Z, and the Latin-1 capitals\<close>
  "lower c = (let n = (of_char c :: nat) in
     if (65 \<le> n \<and> n \<le> 90) \<or> (192 \<le> n \<and> n \<le> 222 \<and> n \<noteq> 215) then char_of (n + 32) else c)"

definition toLowerCase :: "string \<Rightarrow> string" where
  "toLowerCase s = map lower s"

definition getFormatFromExtension :: "string \<Rightarrow> error + GeoFormat" where
  "getFormatFromExtension ext =
     (let e = toLowerCase ext in
      if e = ''.json'' \<or> e = ''.geojson'' then Inr ''geojson''
      else if e = ''.shp'' then Inr ''shapefile''
      else if e = ''.kml'' then Inr ''kml''
      else if e = ''.gml'' then Inr ''gml''
      else if e = ''.topojson'' then Inr ''topojson''
      else if e = ''.wkt'' then Inr ''wkt''
      else if e = ''.csv'' then Inr ''csv''
      else if e = ''.parquet'' \<or> e = ''.geoparquet'' then Inr ''geoparquet''
      else Inl (''Unsupported file extension: '' @ ext))"

definition drop_sql :: string where
  "drop_sql = ''DROP TABLE IF EXISTS temp_geo_data''"

definition st_read :: "string \<Rightarrow> string \<Rightarrow> string" where
  "st_read filePath args =
     ''CREATE TABLE temp_geo_data AS SELECT * FROM ST_READ('' @ quoted filePath @ '', '' @ args @ '');''"

definition load_wkt_sql :: "string \<Rightarrow> string" where
  "load_wkt_sql filePath =
     ''CREATE TABLE temp_wkt_raw(wkt_text VARCHAR); COPY temp_wkt_raw FROM '' @ quoted filePath
     @ ''; CREATE TABLE temp_geo_data AS SELECT ST_GeomFromWKT(wkt_text) AS geometry FROM temp_wkt_raw; DROP TABLE temp_wkt_raw;''"

definition load_sql :: "string \<Rightarrow> GeoFormat \<Rightarrow> string option" where
  \<comment> \<open>the statement of each case of the switch in \<^verbatim>\<open>loadData\<close>; \<open>None\<close> is the default case\<close>
  "load_sql filePath format =
     (if format = ''geojson'' then Some (st_read filePath ''auto_detect=true'')
      else if format = ''shapefile'' then Some (st_read filePath (''format='' @ quoted ''shapefile''))
      else if format = ''kml'' then Some (st_read filePath (''format='' @ quoted ''kml''))
      else if format = ''gml'' then Some (st_read filePath (''format='' @ quoted ''gml''))
      else if format = ''csv'' then Some (st_read filePath (''format='' @ quoted ''csv'' @ '', auto_detect=true''))
      else if format = ''geoparquet'' then Some (st_read filePath (''format='' @ quoted ''parquet''))
      else if format = ''wkt'' then Some (load_wkt_sql filePath)
      else if format = ''topojson'' then Some (st_read filePath (''format='' @ quoted ''topojson''))
      else None)"

definition loadData :: "('w, 'v) engine \<Rightarrow> string \<Rightarrow> GeoFormat \<Rightarrow> (unit, 'w geo) io" where
  "loadData E filePath format =
     and_then (conn_exec E drop_sql) (\<lambda>_.
       case load_sql filePath format of
         Some sql \<Rightarrow> conn_exec E sql
       | None \<Rightarrow> throw (''Unsupported input format: '' @ format))"

definition st_write :: "string \<Rightarrow> string \<Rightarrow> string" where
  "st_write filePath driver =
     ''CALL ST_WRITE( '' @ quoted ''SELECT * FROM temp_geo_data'' @ '', '' @ quoted filePath
     @ '', format='' @ quoted driver @ '' );''"

definition export_csv_sql :: "string \<Rightarrow> string" where
  "export_csv_sql filePath =
     ''CREATE OR REPLACE TABLE temp_geo_csv AS SELECT ST_AsText(geometry) AS wkt_geometry, * EXCLUDE (geometry) FROM temp_geo_data; COPY temp_geo_csv TO ''
     @ quoted filePath @ '' (HEADER, DELIMITER '' @ quoted '','' @ ''); DROP TABLE temp_geo_csv;''"

definition export_wkt_sql :: "string \<Rightarrow> string" where
  "export_wkt_sql filePath =
     ''COPY (SELECT ST_AsText(geometry) AS wkt FROM temp_geo_data) TO '' @ quoted filePath @ '';''"

definition export_sql :: "string \<Rightarrow> GeoFormat \<Rightarrow> string option" where
  \<comment> \<open>the statement of each case of the switch in \<^verbatim>\<open>exportData\<close>\<close>
  "export_sql filePath format =
     (if format = ''geojson'' then Some (st_write filePath ''GeoJSON'')
      else if format = ''shapefile'' then Some (st_write filePath ''ESRI Shapefile'')
      else if format = ''kml'' then Some (st_write filePath ''KML'')
      else if format = ''gml'' then Some (st_write filePath ''GML'')
      else if format = ''csv'' then Some (export_csv_sql filePath)
      else if format = ''geoparquet'' then Some (st_write filePath ''Parquet'')
      else if format = ''wkt'' then Some (export_wkt_sql filePath)
      else if format = ''topojson'' then Some (st_write filePath ''TopoJSON'')
      else None)"

definition exportData :: "('w, 'v) engine \<Rightarrow> string \<Rightarrow> GeoFormat \<Rightarrow> (unit, 'w geo) io" where
  "exportData E filePath format =
     (case export_sql filePath format of
        Some sql \<Rightarrow> conn_exec E sql
      | None \<Rightarrow> throw (''Unsupported output format: '' @ format))"

definition ensure_init :: "('w, 'v) engine \<Rightarrow> (unit, 'w geo) io" where
  \<comment> \<open>\<^verbatim>\<open>if (!this.conn) { await this.init(); }\<close>\<close>
  "ensure_init E s = (if \<not> conn s then init E s else ret () s)"

definition convert ::
    "('w, 'v) engine \<Rightarrow> string \<Rightarrow> string \<Rightarrow> GeoFormat \<Rightarrow> GeoFormat \<Rightarrow> (unit, 'w geo) io" where
  "convert E inputPath outputPath inputFormat outputFormat =
     and_then (ensure_init E) (\<lambda>_.
       try_catch
         (and_then (loadData E inputPath inputFormat) (\<lambda>_.
          exportData E outputPath outputFormat))
         (\<lambda>error. throw (''Conversion failed: '' @ error)))"

definition count_sql :: string where
  "count_sql = ''SELECT COUNT(*) as count FROM temp_geo_data''"

definition types_sql :: string where
  "types_sql = ''SELECT DISTINCT ST_GeometryType(geometry) as geom_type FROM temp_geo_data WHERE geometry IS NOT NULL''"

definition bounds_sql :: string where
  "bounds_sql = ''SELECT MIN(ST_XMin(ST_Envelope(geometry))) as min_x, MIN(ST_YMin(ST_Envelope(geometry))) as min_y, MAX(ST_XMax(ST_Envelope(geometry))) as max_x, MAX(ST_YMax(ST_Envelope(geometry))) as max_y FROM temp_geo_data WHERE geometry IS NOT NULL''"

text \<open>
  Reading a property of a row gives \<^verbatim>\<open>undefined\<close> (\<open>None\<close>) when the row has no such
  column; reading a property of \<^verbatim>\<open>rows[0]\<close> throws a TypeError when there is no row.
\<close>

definition property :: "'v row \<Rightarrow> string \<Rightarrow> 'v option" where
  "property r name = map_of r name"

definition first_prop :: "'v row list \<Rightarrow> string \<Rightarrow> error + 'v option" where
  "first_prop rows name =
     (case rows of
        [] \<Rightarrow> Inl (''Cannot read properties of undefined (reading '' @ quoted name @ '')'')
      | r # _ \<Rightarrow> Inr (property r name))"

record 'v GeometryInfo =
  count :: "'v option"
  types :: "'v option list"
  bounds :: "'v option list"

definition getGeometryInfo ::
    "('w, 'v) engine \<Rightarrow> string \<Rightarrow> GeoFormat \<Rightarrow> ('v GeometryInfo, 'w geo) io" where
  "getGeometryInfo E filePath format =
     and_then (ensure_init E) (\<lambda>_.
       try_catch
         (and_then (loadData E filePath format) (\<lambda>_.
          and_then (query E count_sql) (\<lambda>countResult.
          and_then (query E types_sql) (\<lambda>typesResult.
          and_then (query E bounds_sql) (\<lambda>boundsResult.
          and_then (pure_call (first_prop countResult ''count'')) (\<lambda>c.
          and_then (pure_call (first_prop boundsResult ''min_x'')) (\<lambda>x0.
          and_then (pure_call (first_prop boundsResult ''min_y'')) (\<lambda>y0.
          and_then (pure_call (first_prop boundsResult ''max_x'')) (\<lambda>x1.
          and_then (pure_call (first_prop boundsResult ''max_y'')) (\<lambda>y1.
          ret \<lparr> count = c,
                types = map (\<lambda>row. property row ''geom_type'') typesResult,
                bounds = [x0, y0, x1, y1] \<rparr>))))))))))
         (\<lambda>error. throw (''Failed to get geometry info: '' @ error)))"


section \<open>What the specification says, as definitions\<close>

subsection \<open>The extension table\<close>

definition extension_table :: "(string \<times> GeoFormat) list" where
  \<comment> \<open>the extensions the converter knows, with the format of each\<close>
  "extension_table =
     [(''.json'', ''geojson''), (''.geojson'', ''geojson''), (''.shp'', ''shapefile''),
      (''.kml'', ''kml''), (''.gml'', ''gml''), (''.topojson'', ''topojson''),
      (''.wkt'', ''wkt''), (''.csv'', ''csv''),
      (''.parquet'', ''geoparquet''), (''.geoparquet'', ''geoparquet'')]"

subsection \<open>The staging table and the statements of DuckDB\<close>

text \<open>
  DuckDB is not code of this repository. What it is taken to do is written down here, for
  the statements the claims are about. A database holds tables by name; of a table only
  the \<^verbatim>\<open>geometry\<close> column is kept: a table is the list of its rows' geometries (\<open>None\<close> for
  SQL NULL). A geometry has a type name and an envelope; \<open>'c\<close> is the type of a
  coordinate.
\<close>

record 'c geometry =
  gtype :: string
  x_min :: 'c
  y_min :: 'c
  x_max :: 'c
  y_max :: 'c

datatype 'c val = Count nat | Coord 'c | Text string | Null | Shape "'c geometry" | Box "'c geometry"

type_synonym 'c table = "'c geometry option list"


definition agg_min :: "('c::linorder) list \<Rightarrow> 'c val" where
  \<comment> \<open>MIN of a column: NULL over no row\<close>
  "agg_min xs = (case xs of [] \<Rightarrow> Null | x # t \<Rightarrow> Coord (fold min t x))"

definition agg_max :: "('c::linorder) list \<Rightarrow> 'c val" where
  "agg_max xs = (case xs of [] \<Rightarrow> Null | x # t \<Rightarrow> Coord (fold max t x))"

text \<open>
  The text of a SELECT statement is read as SQL reads it: names, parentheses, commas and
  \<^verbatim>\<open>*\<close>, separated by white space, key words in either case. The statements covered are
  \<^verbatim>\<open>SELECT [DISTINCT] e AS a, ... FROM t [WHERE c IS NOT NULL]\<close> where an expression is a
  column, \<^verbatim>\<open>*\<close> or a function applied to an expression.
\<close>

datatype token = Name string | LPar | RPar | Comma | Asterisk | Other char

definition flush :: "string \<Rightarrow> token list" where
  "flush acc = (if acc = [] then [] else [Name (rev acc)])"

definition mark :: "char \<Rightarrow> token list" where
  "mark c = (if WhiteSpace c then []
             else if c = CHR ''('' then [LPar]
             else if c = CHR '')'' then [RPar]
             else if c = CHR '','' then [Comma]
             else if c = CHR ''*'' then [Asterisk]
             else [Other c])"

fun lex :: "string \<Rightarrow> string \<Rightarrow> token list" where
  \<comment> \<open>\<open>acc\<close> is the name being read, backwards\<close>
  "lex acc [] = flush acc"
| "lex acc (c # cs) =
     (if WordCharacter c then lex (c # acc) cs else flush acc @ mark c @ lex [] cs)"

definition keyword :: "string \<Rightarrow> token \<Rightarrow> bool" where
  "keyword k t = (case t of Name w \<Rightarrow> toLowerCase w = k | _ \<Rightarrow> False)"

datatype sexpr = Col string | AllCols | Fn string sexpr

record select =
  sel_distinct :: bool
  sel_items :: "(sexpr \<times> string) list"
  sel_from :: string
  sel_where :: "string option"

fun parse_expr :: "token list \<Rightarrow> (sexpr \<times> token list) option" where
  "parse_expr (Name f # LPar # ts) =
     (case parse_expr ts of Some (e, RPar # r) \<Rightarrow> Some (Fn f e, r) | _ \<Rightarrow> None)"
| "parse_expr (Name c # ts) = Some (Col c, ts)"
| "parse_expr (Asterisk # ts) = Some (AllCols, ts)"
| "parse_expr _ = None"

definition parse_item :: "token list \<Rightarrow> (sexpr \<times> string) option" where
  \<comment> \<open>\<^verbatim>\<open>e AS a\<close>\<close>
  "parse_item ts =
     (case rev ts of
        Name a # k # r \<Rightarrow>
          if keyword ''as'' k
          then (case parse_expr (rev r) of Some (e, []) \<Rightarrow> Some (e, a) | _ \<Rightarrow> None)
          else None
      | _ \<Rightarrow> None)"

fun split_commas :: "token list \<Rightarrow> token list list" where
  "split_commas [] = [[]]"
| "split_commas (t # ts) =
     (case split_commas ts of
        g # gs \<Rightarrow> if t = Comma then [] # g # gs else (t # g) # gs
      | [] \<Rightarrow> [[t]])"

definition parse_where :: "token list \<Rightarrow> string option option" where
  "parse_where ts =
     (case ts of
        [] \<Rightarrow> Some None
      | [w, Name c, i, n, u] \<Rightarrow>
          if keyword ''where'' w \<and> keyword ''is'' i \<and> keyword ''not'' n \<and> keyword ''null'' u
          then Some (Some c) else None
      | _ \<Rightarrow> None)"

definition parse_select :: "string \<Rightarrow> select option" where
  "parse_select sql =
     (case lex [] sql of
        s # r \<Rightarrow>
          if keyword ''select'' s
          then (let d = (case r of x # _ \<Rightarrow> keyword ''distinct'' x | [] \<Rightarrow> False);
                    r1 = (if d then tl r else r)
                in case dropWhile (\<lambda>t. \<not> keyword ''from'' t) r1 of
                     _ # Name t # wh \<Rightarrow>
                       (case (those (map parse_item
                                (split_commas (takeWhile (\<lambda>t. \<not> keyword ''from'' t) r1))),
                              parse_where wh) of
                          (Some its, Some c) \<Rightarrow>
                            Some \<lparr> sel_distinct = d, sel_items = its, sel_from = t, sel_where = c \<rparr>
                        | _ \<Rightarrow> None)
                   | _ \<Rightarrow> None)
          else None
      | [] \<Rightarrow> None)"

text \<open>
  What a statement returns from a table. \<^verbatim>\<open>ST_Envelope\<close> gives the bounding rectangle of
  a geometry (\<open>Box g\<close>: the envelope of \<open>g\<close>), \<^verbatim>\<open>ST_XMin\<close> and the like read one side of
  a geometry's or of a rectangle's envelope, \<^verbatim>\<open>ST_GeometryType\<close> gives the type name of a
  geometry; each is NULL of NULL. \<^verbatim>\<open>COUNT(*)\<close> counts the rows, \<^verbatim>\<open>MIN\<close> and \<^verbatim>\<open>MAX\<close> skip
  NULL and are NULL over no row. \<^verbatim>\<open>WHERE c IS NOT NULL\<close> keeps the rows whose \<open>c\<close> is not
  NULL and \<^verbatim>\<open>DISTINCT\<close> keeps one row of each kind. A statement outside this fragment
  has no meaning here (\<open>None\<close>).
\<close>

definition side :: "string \<Rightarrow> 'c geometry \<Rightarrow> 'c option" where
  "side f g =
     (if f = ''ST_XMin'' then Some (x_min g)
      else if f = ''ST_YMin'' then Some (y_min g)
      else if f = ''ST_XMax'' then Some (x_max g)
      else if f = ''ST_YMax'' then Some (y_max g)
      else None)"

definition scalar_fn :: "string \<Rightarrow> 'c val \<Rightarrow> 'c val option" where
  "scalar_fn f v =
     (case v of
        Null \<Rightarrow>
          if f \<in> {''ST_Envelope'', ''ST_GeometryType'', ''ST_XMin'', ''ST_YMin'', ''ST_XMax'', ''ST_YMax''}
          then Some Null else None
      | Shape g \<Rightarrow>
          if f = ''ST_Envelope'' then Some (Box g)
          else if f = ''ST_GeometryType'' then Some (Text (gtype g))
          else map_option Coord (side f g)
      | Box g \<Rightarrow>
          if f = ''ST_Envelope'' then Some (Box g) else map_option Coord (side f g)
      | _ \<Rightarrow> None)"

fun scalar :: "sexpr \<Rightarrow> 'c geometry option \<Rightarrow> 'c val option" where
  "scalar (Col c) r =
     (if c = ''geometry'' then Some (case r of None \<Rightarrow> Null | Some g \<Rightarrow> Shape g) else None)"
| "scalar (Fn f e) r = (case scalar e r of None \<Rightarrow> None | Some v \<Rightarrow> scalar_fn f v)"
| "scalar AllCols r = None"

fun coords :: "'c val list \<Rightarrow> 'c list option" where
  \<comment> \<open>the numbers of a column that are not NULL\<close>
  "coords [] = Some []"
| "coords (Null # vs) = coords vs"
| "coords (Coord x # vs) = map_option ((#) x) (coords vs)"
| "coords (_ # vs) = None"

definition is_aggregate :: "sexpr \<Rightarrow> bool" where
  "is_aggregate e = (case e of Fn f a \<Rightarrow> f \<in> {''COUNT'', ''MIN'', ''MAX''} | _ \<Rightarrow> False)"

definition aggregate :: "sexpr \<Rightarrow> ('c::linorder) table \<Rightarrow> 'c val option" where
  "aggregate e rows =
     (case e of
        Fn f a \<Rightarrow>
          if f = ''COUNT'' then (if a = AllCols then Some (Count (length rows)) else None)
          else (case those (map (scalar a) rows) of
                  None \<Rightarrow> None
                | Some vs \<Rightarrow>
                    if f = ''MIN'' then map_option agg_min (coords vs)
                    else if f = ''MAX'' then map_option agg_max (coords vs)
                    else None)
      | _ \<Rightarrow> None)"

definition plain :: "'c val \<Rightarrow> bool" where
  \<comment> \<open>a number, a text or NULL: only the type and the envelope of a geometry are kept
      here, so a statement that returns geometries is left out\<close>
  "plain v = (case v of Shape g \<Rightarrow> False | Box g \<Rightarrow> False | _ \<Rightarrow> True)"

definition named :: "('a \<Rightarrow> 'c val option) \<Rightarrow> ('a \<times> string) list \<Rightarrow> 'c val row option" where
  \<comment> \<open>one row of the result: each item's value under its alias\<close>
  "named f its =
     those (map (\<lambda>(e, a). case f e of
                               None \<Rightarrow> None
                             | Some v \<Rightarrow> if plain v then Some (a, v) else None) its)"

definition eval_select :: "select \<Rightarrow> ('c::linorder) table \<Rightarrow> 'c val row list option" where
  "eval_select q tbl =
     (case (case sel_where q of
              None \<Rightarrow> Some tbl
            | Some c \<Rightarrow> if c = ''geometry'' then Some (filter (\<lambda>r. r \<noteq> None) tbl) else None) of
        None \<Rightarrow> None
      | Some rows \<Rightarrow>
          if list_all (\<lambda>(e, a). is_aggregate e) (sel_items q)
          then map_option (\<lambda>r. [r]) (named (\<lambda>e. aggregate e rows) (sel_items q))
          else if list_all (\<lambda>(e, a). \<not> is_aggregate e) (sel_items q)
          then map_option (if sel_distinct q then remdups else id)
                 (those (map (\<lambda>r. named (\<lambda>e. scalar e r) (sel_items q)) rows))
          else None)"



text \<open>\<open>contains s x\<close>: the text \<open>x\<close> occurs in \<open>s\<close>.\<close>

fun starts_with :: "string \<Rightarrow> string \<Rightarrow> bool" where
  "starts_with s [] = True"
| "starts_with [] (x # xs) = False"
| "starts_with (c # s) (x # xs) = (c = x \<and> starts_with s xs)"


subsection \<open>Fenced code blocks\<close>

definition fence :: string where
  \<comment> \<open>the three backticks that open and close a Markdown fence\<close>
  "fence = [CHR 0x60, CHR 0x60, CHR 0x60]"

definition source_block :: "string \<Rightarrow> string \<Rightarrow> string" where
  \<comment> \<open>a \<^verbatim>\<open>[source,lang]\<close> line, then the content between two \<^verbatim>\<open>----\<close> delimiters\<close>
  "source_block lang code = ''[source,'' @ lang @ '']\<newline>----\<newline>'' @ code @ ''----\<newline>''"

definition plain_block :: "string \<Rightarrow> string" where
  "plain_block code = ''----\<newline>'' @ code @ ''----\<newline>''"

subsection \<open>The template of one conversion\<close>



section \<open>Notions used in the proofs\<close>

text \<open>
  \<open>no_start Q pv s\<close>: no line of \<open>s\<close> starts with a character in \<open>Q\<close>, where \<open>pv\<close> is the
  character before \<open>s\<close>. \<open>lastc pv s\<close> is the character before the position behind \<open>s\<close>.
\<close>

fun no_start :: "(char \<Rightarrow> bool) \<Rightarrow> char option \<Rightarrow> string \<Rightarrow> bool" where
  "no_start Q pv [] = True"
| "no_start Q pv (c # r) = (\<not> (at_bol True pv \<and> Q c) \<and> no_start Q (Some c) r)"

fun lastc :: "char option \<Rightarrow> string \<Rightarrow> char option" where
  "lastc pv [] = pv"
| "lastc pv (c # r) = lastc (Some c) r"

text \<open>
  \<open>quiet_code\<close>: code content that no substitution of the chain matches. It has no
  backtick, \<^verbatim>\<open>*\<close> or \<^verbatim>\<open>[\<close>, and none of its lines starts with \<^verbatim>\<open>#\<close>, \<^verbatim>\<open>>\<close> or a digit.
\<close>

definition quiet_code :: "string \<Rightarrow> bool" where
  "quiet_code code =
     (CHR 0x60 \<notin> set code \<and> CHR ''*'' \<notin> set code \<and> CHR ''['' \<notin> set code
      \<and> no_start (\<lambda>c. c = CHR ''#'' \<or> c = CHR ''>'' \<or> DecimalDigit c) (Some CHR 0x0A) code)"



section \<open>Fixtures\<close>

definition default_options :: DocxToAsciidocOptions where
  "default_options = \<lparr> headingLevel = None, includeAttributes = None, attributes = None,
                        preserveLineBreaks = None, codeBlockStyle = None, includeToc = None \<rparr>"

definition author_options :: DocxToAsciidocOptions where
  "author_options = default_options \<lparr> includeAttributes := Some True,
                      attributes := Some [(''author'', ''A''), (''email'', ''b@x.com'')] \<rparr>"


text \<open>
  A file system that is a list of paths with their content, and the libraries as the
  repository's tests mock them.
\<close>

definition mock_node :: "(string \<times> string) list node" where
  "mock_node =
     \<lparr> existsSync = (\<lambda>w p. map_of w p \<noteq> None),
       readFileSync = (\<lambda>w p. case map_of w p of
                                 None \<Rightarrow> Inl (''ENOENT: no such file or directory, open '' @ quoted p)
                               | Some c \<Rightarrow> Inr c),
       mkdirSync = (\<lambda>d w. (Inr (), w)),
       writeFileSync = (\<lambda>p c w. (Inr (), (p, c) # w)),
       dirname = (\<lambda>p. ''/test/output''),
       asciidoctor_convert = (\<lambda>a. Inr ''<html><body><h1>Test Document</h1></body></html>''),
       HTMLtoDOCX = (\<lambda>h t c. Inr ''mock docx content''),
       extractRawText = (\<lambda>w p. Inr ''Test Document'') \<rparr>"

definition mock_world :: "(string \<times> string) list world" where
  "mock_world = \<lparr> fs = [(''/test/templates/template.docx'', ''template content''),
                         (''/test/input/test.docx'', ''PK'')],
                   calls = [] \<rparr>"





text \<open>
  An engine whose database is the list of its tables by name. It can read one file,
  \<^verbatim>\<open>test.geojson\<close>, with the two features of the repository's tests; it refuses to create
  a table that exists, drops the table that \<^verbatim>\<open>DROP TABLE IF EXISTS\<close> names, and answers
  the SELECT statements as they are read above.
\<close>

definition test_table :: "int table" where
  "test_table =
     [Some \<lparr> gtype = ''POINT'', x_min = 0, y_min = 0, x_max = 0, y_max = 0 \<rparr>,
      Some \<lparr> gtype = ''LINESTRING'', x_min = 0, y_min = 0, x_max = 1, y_max = 1 \<rparr>]"



definition mock_engine :: "((string \<times> int table) list, int val) engine" where
  "mock_engine =
     \<lparr> new_database = Inr [],
       connect = (\<lambda>w. Inr ()),
       exec = (\<lambda>sql w.
         if take 21 sql = ''DROP TABLE IF EXISTS ''
         then (Inr (), filter (\<lambda>(n, t). n \<noteq> drop 21 sql) w)
         else if take 26 sql = ''CREATE TABLE temp_geo_data''
         then (if map_of w ''temp_geo_data'' \<noteq> None
               then (Inl ''Catalog Error: Table with name temp_geo_data already exists!'', w)
               else if sql = st_read ''test.geojson'' ''auto_detect=true''
               then (Inr (), (''temp_geo_data'', test_table) # w)
               else (Inl ''IO Error: No such file or directory'', w))
         else (Inr (), w)),
       all_rows = (\<lambda>sql w.
         case parse_select sql of
           None \<Rightarrow> (Inl ''Parser Error'', w)
         | Some q \<Rightarrow>
             (case map_of w (sel_from q) of
                None \<Rightarrow> (Inl (''Catalog Error: Table with name '' @ sel_from q @ '' does not exist!''), w)
              | Some tbl \<Rightarrow>
                  (case eval_select q tbl of
                     None \<Rightarrow> (Inl ''Binder Error'', w)
                   | Some rows \<Rightarrow> (Inr rows, w)))) \<rparr>"

definition offline_engine :: "((string \<times> int table) list, int val) engine" where
  \<comment> \<open>the same engine where the spatial extension cannot be installed\<close>
  "offline_engine =
     mock_engine \<lparr> exec := (\<lambda>sql w.
       if sql = install_sql then (Inl ''IO Error: Failed to download extension spatial'', w)
       else exec mock_engine sql w) \<rparr>"

definition geo0 :: "(string \<times> int table) list geo" where
  \<comment> \<open>before the first call: no connection\<close>
  "geo0 = \<lparr> conn = False, db = [], stmts = [] \<rparr>"

definition geo1 :: "(string \<times> int table) list geo" where
  \<comment> \<open>after \<open>init\<close>\<close>
  "geo1 = \<lparr> conn = True, db = [], stmts = [install_sql] \<rparr>"



section \<open>Properties of the geospatial converter\<close>

lemma toLowerCase_GeoJSON: "toLowerCase ''.GeoJSON'' = ''.geojson''"
  by (simp add: toLowerCase_def lower_def Let_def char_of_def bit_Suc_0_iff)

text \<open>
  C4, as the code has it. \<^verbatim>\<open>getFormatFromExtension\<close> looks the lower-cased extension up in
  a table of ten extensions: \<^verbatim>\<open>.json\<close> and \<^verbatim>\<open>.geojson\<close> give \<^verbatim>\<open>geojson\<close>, \<^verbatim>\<open>.shp\<close> gives
  \<^verbatim>\<open>shapefile\<close>, \<^verbatim>\<open>.kml\<close>, \<^verbatim>\<open>.gml\<close>, \<^verbatim>\<open>.topojson\<close>, \<^verbatim>\<open>.wkt\<close> and \<^verbatim>\<open>.csv\<close> give the format
  of their name, \<^verbatim>\<open>.parquet\<close> and \<^verbatim>\<open>.geoparquet\<close> give \<^verbatim>\<open>geoparquet\<close>; every extension
  whose lower case is not in the table throws "Unsupported file extension".
\<close>

theorem getFormatFromExtension_table:
  "getFormatFromExtension ext =
     (case map_of extension_table (toLowerCase ext) of
        Some f \<Rightarrow> Inr f
      | None \<Rightarrow> Inl (''Unsupported file extension: '' @ ext))"
  by (simp add: getFormatFromExtension_def extension_table_def Let_def)

theorem getFormatFromExtension_table_witness:
  "getFormatFromExtension ''.GeoJSON'' = Inr ''geojson''"
  using getFormatFromExtension_table [of "''.GeoJSON''"]
  by (simp add: extension_table_def toLowerCase_GeoJSON)

text \<open>
  C4 as stated fails: \<^verbatim>\<open>.kml\<close> is none of the five extensions the claim lists, and it
  does not throw.
\<close>

theorem getFormatFromExtension_kml_accepted:
  "getFormatFromExtension ''.kml'' = Inr ''kml''"
  by (simp add: getFormatFromExtension_def toLowerCase_def lower_def Let_def)

lemma ensure_init_fail:
  "ensure_init E s = (Inl e, s1) \<Longrightarrow> convert E ip outp ifmt ofmt s = (Inl e, s1)"
  "ensure_init E s = (Inl e, s1) \<Longrightarrow> getGeometryInfo E ip ifmt s = (Inl e, s1)"
  by (simp_all add: convert_def getGeometryInfo_def and_then_def)

lemma export_not_drop: "export_sql p f = Some e \<Longrightarrow> e \<noteq> drop_sql"
  by (auto simp: export_sql_def drop_sql_def st_write_def export_csv_sql_def export_wkt_sql_def
      split: if_splits)

lemma export_not_load: "export_sql p f = Some e \<Longrightarrow> load_sql p' f' \<noteq> Some e"
  by (auto simp: export_sql_def load_sql_def st_write_def export_csv_sql_def export_wkt_sql_def
      st_read_def load_wkt_sql_def split: if_splits)

lemma ensure_init_mock: "ensure_init mock_engine geo0 = (Inr (), geo1)"
  by (simp add: ensure_init_def init_def and_then_def conn_exec_def mock_engine_def geo0_def
      geo1_def install_sql_def)

lemma ensure_init_offline:
  "ensure_init offline_engine geo0 =
     (Inl ''IO Error: Failed to download extension spatial'', geo1)"
  by (simp add: ensure_init_def init_def and_then_def conn_exec_def offline_engine_def
      mock_engine_def geo0_def geo1_def)

text \<open>
  C5, as the code has it. Once the connection is there (it was, or \<^verbatim>\<open>init\<close> succeeded), a
  call of \<^verbatim>\<open>convert\<close> whose input format or output format is not recognised, or whose
  load statement the engine rejects (as it does for a path that does not exist), is
  rejected with a message that starts with "Conversion failed: ", and no export
  statement is among the statements the call sent: the output file is not written.
\<close>

theorem conversion_failure_wrapped:
  assumes ini: "ensure_init E s = (Inr (), s1)"
      and bad: "load_sql ip ifmt = None \<or> export_sql outp ofmt = None
                \<or> (\<exists>l. load_sql ip ifmt = Some l \<and> (\<forall>w. fst (exec E l w) \<noteq> Inr ()))"
  shows "\<exists>msg new. fst (convert E ip outp ifmt ofmt s) = Inl (''Conversion failed: '' @ msg)
           \<and> stmts (snd (convert E ip outp ifmt ofmt s)) = stmts s1 @ new
           \<and> (\<forall>e. export_sql outp ofmt = Some e \<longrightarrow> e \<notin> set new)"
proof -
  obtain rd w1 where d: "exec E drop_sql (db s1) = (rd, w1)" by (cases "exec E drop_sql (db s1)")
  show ?thesis
  proof (cases rd)
    case (Inl e)
    then show ?thesis using ini d export_not_drop [of outp ofmt]
      by (auto simp: convert_def loadData_def and_then_def try_catch_def conn_exec_def throw_def)
  next
    case (Inr u)
    show ?thesis
    proof (cases "load_sql ip ifmt")
      case None
      then show ?thesis using ini d Inr export_not_drop [of outp ofmt]
        by (auto simp: convert_def loadData_def and_then_def try_catch_def conn_exec_def throw_def)
    next
      case (Some l)
      obtain rl w2 where l: "exec E l w1 = (rl, w2)" by (cases "exec E l w1")
      have nl: "\<And>e. export_sql outp ofmt = Some e \<Longrightarrow> e \<noteq> l"
        using export_not_load [of outp ofmt _ ip ifmt] Some by auto
      show ?thesis
      proof (cases rl)
        case (Inl e)
        then show ?thesis using ini d Inr Some l export_not_drop [of outp ofmt] nl
          by (auto simp: convert_def loadData_def and_then_def try_catch_def conn_exec_def throw_def)
      next
        case (Inr u2)
        then have "fst (exec E l w1) = Inr ()" using l by simp
        then have "export_sql outp ofmt = None" using bad Some by auto
        then show ?thesis using ini d \<open>rd = Inr u\<close> Some l Inr
          by (auto simp: convert_def loadData_def exportData_def and_then_def try_catch_def
              conn_exec_def throw_def)
      qed
    qed
  qed
qed

lemma load_missing: "load_sql ''missing.geojson'' ''geojson'' = Some (st_read ''missing.geojson'' ''auto_detect=true'')"
  by (simp add: load_sql_def)

lemma exec_missing: "fst (exec mock_engine (st_read ''missing.geojson'' ''auto_detect=true'') w) \<noteq> Inr ()"
  by (simp add: mock_engine_def st_read_def quoted_def)

theorem conversion_failure_wrapped_witness:
  "\<exists>msg new. fst (convert mock_engine ''missing.geojson'' ''out.wkt'' ''geojson'' ''wkt'' geo0)
               = Inl (''Conversion failed: '' @ msg)
     \<and> stmts (snd (convert mock_engine ''missing.geojson'' ''out.wkt'' ''geojson'' ''wkt'' geo0))
         = stmts geo1 @ new
     \<and> (\<forall>e. export_sql ''out.wkt'' ''wkt'' = Some e \<longrightarrow> e \<notin> set new)"
proof -
  have bad: "load_sql ''missing.geojson'' ''geojson'' = None \<or> export_sql ''out.wkt'' ''wkt'' = None
     \<or> (\<exists>l. load_sql ''missing.geojson'' ''geojson'' = Some l \<and> (\<forall>w. fst (exec mock_engine l w) \<noteq> Inr ()))"
    using load_missing exec_missing by simp
  show ?thesis by (rule conversion_failure_wrapped [OF ensure_init_mock bad])
qed

text \<open>
  C5 as stated fails on a first call when \<^verbatim>\<open>init\<close> fails: \<^verbatim>\<open>init\<close> runs outside the
  \<^verbatim>\<open>try\<close> block, so its error reaches the caller as it is.
\<close>

theorem init_failure_not_wrapped:
  "fst (convert offline_engine ''missing.geojson'' ''out.xyz'' ''geojson'' ''xyz'' geo0)
     = Inl ''IO Error: Failed to download extension spatial''"
  using ensure_init_fail(1) [OF ensure_init_offline] by simp


lemma starts_with_append: "starts_with (x @ s) x"
  by (induction x) auto













































section \<open>Properties of the document converters\<close>





text \<open>
  C10. \<^verbatim>\<open>validateDocxFile\<close> never throws and leaves the state as it is: it returns true
  exactly when the file exists and mammoth's raw-text extraction succeeds, false
  otherwise.
\<close>

theorem validateDocxFile_never_throws:
  "validateDocxFile env filePath s =
     (Inr (existsSync env (fs s) filePath \<and> \<not> isl (extractRawText env (fs s) filePath)), s)"
  by (cases "extractRawText env (fs s) filePath")
     (simp_all add: validateDocxFile_def try_catch_def and_then_def ret_def pure_call_def)

theorem validateDocxFile_never_throws_witness:
  "validateDocxFile mock_node ''/test/input/test.docx'' mock_world = (Inr True, mock_world)
   \<and> validateDocxFile mock_node ''/nonexistent.docx'' mock_world = (Inr False, mock_world)"
  using validateDocxFile_never_throws [of mock_node "''/test/input/test.docx''" mock_world]
        validateDocxFile_never_throws [of mock_node "''/nonexistent.docx''" mock_world]
  by (simp add: mock_node_def mock_world_def)

section \<open>Facts about the matcher\<close>

text \<open>
  What a successful repetition consumed, when a greedy or a lazy repetition succeeds, and
  when a substitution leaves a string or a part of it as it is.
\<close>

lemma lastc_append [simp]: "lastc pv (xs @ ys) = lastc (lastc pv xs) ys"
  by (induction xs arbitrary: pv) auto

lemma rep_Some:
  "rep g p lo hi k (MState pv r os cs) = Some st \<Longrightarrow>
     \<exists>m r'. r = m @ r' \<and> (\<forall>c\<in>set m. cls_mem p c) \<and> lo \<le> length m
            \<and> k (MState (lastc pv m) r' os cs) = Some st"
proof (induction r arbitrary: pv lo hi)
  case Nil
  then have "k (MState pv [] os cs) = Some st" "lo = 0" by (auto split: if_splits)
  then show ?case by simp
next
  case (Cons c r)
  show ?case
  proof (cases "hi = Some 0 \<or> \<not> cls_mem p c")
    case True
    with Cons.prems have "k (MState pv (c # r) os cs) = Some st" "lo = 0"
      by (auto split: if_splits)
    then show ?thesis by (rule_tac x = "[]" in exI, rule_tac x = "c # r" in exI) simp
  next
    case False
    have stay: "k (MState pv (c # r) os cs) = Some st \<Longrightarrow> lo = 0 \<Longrightarrow> ?thesis"
      by (rule exI [of _ "[]"], rule exI [of _ "c # r"]) simp
    have go: "rep g p (lo - 1) (dec hi) k (MState (Some c) r os cs) = Some st \<Longrightarrow> ?thesis"
    proof -
      assume "rep g p (lo - 1) (dec hi) k (MState (Some c) r os cs) = Some st"
      from Cons.IH [OF this] obtain m r' where
        m: "r = m @ r'" "\<forall>c\<in>set m. cls_mem p c" "lo - 1 \<le> length m"
           "k (MState (lastc (Some c) m) r' os cs) = Some st" by blast
      show ?thesis
        using m False by (rule_tac x = "c # m" in exI, rule_tac x = r' in exI) auto
    qed
    show ?thesis
    proof (cases "0 < lo")
      case True
      with False Cons.prems show ?thesis using go by simp
    next
      case lo0: False
      then have z: "lo = 0" by simp
      show ?thesis
      proof (cases g)
        case True
        show ?thesis
        proof (cases "rep g p 0 (dec hi) k (MState (Some c) r os cs)")
          case None
          with Cons.prems False z True show ?thesis using stay by simp
        next
          case (Some s)
          with Cons.prems False z True show ?thesis using go by simp
        qed
      next
        case g: False
        show ?thesis
        proof (cases "k (MState pv (c # r) os cs)")
          case None
          with Cons.prems False z g show ?thesis using go by simp
        next
          case (Some s)
          with Cons.prems False z g show ?thesis using stay by simp
        qed
      qed
    qed
  qed
qed

lemma rep_greedy_run:
  assumes "\<forall>c\<in>set xs. cls_mem p c"
      and "ys = [] \<or> \<not> cls_mem p (hd ys)"
      and "lo \<le> length xs"
      and "case hi of None \<Rightarrow> True | Some h \<Rightarrow> length xs \<le> h"
      and "k (MState (lastc pv xs) ys os cs) = Some st"
  shows "rep True p lo hi k (MState pv (xs @ ys) os cs) = Some st"
  using assms
proof (induction xs arbitrary: pv lo hi)
  case Nil
  then show ?case by (cases ys) auto
next
  case (Cons x xs)
  have h: "hi \<noteq> Some 0" using Cons.prems(4) by (auto split: option.splits)
  have d: "case dec hi of None \<Rightarrow> True | Some h \<Rightarrow> length xs \<le> h"
    using Cons.prems(4) by (cases hi) auto
  have "rep True p (lo - 1) (dec hi) k (MState (Some x) (xs @ ys) os cs) = Some st"
    using Cons.prems d by (intro Cons.IH) auto
  then show ?case using Cons.prems(1) h by (cases "0 < lo") auto
qed

lemma rep_lazy_skip:
  assumes "\<forall>c\<in>set xs. cls_mem p c"
      and "\<And>pv' c r'. c \<in> set xs \<Longrightarrow> k (MState pv' (c # r') os cs) = None"
      and "k (MState (lastc pv xs) ys os cs) = Some st"
  shows "rep False p 0 None k (MState pv (xs @ ys) os cs) = Some st"
  using assms
proof (induction xs arbitrary: pv)
  case Nil
  then show ?case by (cases ys) auto
next
  case (Cons x xs)
  have "rep False p 0 None k (MState (Some x) (xs @ ys) os cs) = Some st"
    using Cons.prems by (intro Cons.IH) auto
  then show ?case using Cons.prems(1) Cons.prems(2) [of x pv "xs @ ys"] by simp
qed

lemma replace_from_absent:
  assumes "\<And>pv r st. match_at re pv r = Some st \<Longrightarrow> \<exists>x\<in>set r. Q x"
      and "\<forall>x\<in>set s. \<not> Q x"
  shows "replace_from re f bef s = s"
  using assms(2)
proof (induction s arbitrary: bef)
  case Nil
  have "match_at re (prevc bef) [] = None"
    using assms(1) [of "prevc bef" "[]"] by (cases "match_at re (prevc bef) []") auto
  then show ?case by simp
next
  case (Cons c s)
  have "match_at re (prevc bef) (c # s) = None"
    using assms(1) [of "prevc bef" "c # s"] Cons.prems
    by (cases "match_at re (prevc bef) (c # s)") auto
  then show ?case using Cons by simp
qed

lemma replace_from_no_start:
  assumes "\<And>pv r st. match_at re pv r = Some st \<Longrightarrow> at_bol True pv \<and> r \<noteq> [] \<and> Q (hd r)"
      and "no_start Q (prevc bef) s"
  shows "replace_from re f bef s = s"
  using assms(2)
proof (induction s arbitrary: bef)
  case Nil
  have "match_at re (prevc bef) [] = None"
    using assms(1) [of "prevc bef" "[]"] by (cases "match_at re (prevc bef) []") auto
  then show ?case by simp
next
  case (Cons c s)
  have "match_at re (prevc bef) (c # s) = None"
    using assms(1) [of "prevc bef" "c # s"] Cons.prems
    by (cases "match_at re (prevc bef) (c # s)") auto
  moreover have "no_start Q (prevc (c # bef)) s" using Cons.prems by simp
  ultimately show ?case using Cons.IH by simp
qed

lemma replace_from_id:
  assumes "\<And>bef r st. match_at re (prevc bef) r = Some st \<Longrightarrow>
             f (mk_match re bef r st) @ rest st = r"
  shows "replace_from re f bef s = s"
proof (induction "length s" arbitrary: s bef rule: less_induct)
  case less
  show ?case
  proof (cases s)
    case Nil
    show ?thesis
    proof (cases "match_at re (prevc bef) []")
      case None
      then show ?thesis using Nil by simp
    next
      case (Some st)
      from assms [OF Some] show ?thesis using Nil Some by simp
    qed
  next
    case (Cons c r)
    show ?thesis
    proof (cases "match_at re (prevc bef) (c # r)")
      case None
      then show ?thesis using Cons less [of r "c # bef"] by simp
    next
      case (Some st)
      note a = assms [OF Some]
      show ?thesis
      proof (cases "global re \<and> length (rest st) < length (c # r)")
        case True
        then have "replace_from re f (rev (matched (mk_match re bef (c # r) st)) @ bef) (rest st) = rest st"
          using less [of "rest st"] Cons by simp
        then show ?thesis using Cons Some True a by simp
      next
        case False
        show ?thesis
        proof (cases "global re")
          case True
          with False have "length (c # r) \<le> length (rest st)" by simp
          moreover have "length (f (mk_match re bef (c # r) st)) + length (rest st) = length (c # r)"
            using a by (metis length_append)
          ultimately have "length (f (mk_match re bef (c # r) st)) = 0"
            by arith
          then have e: "f (mk_match re bef (c # r) st) = []"
            by simp
          then have "rest st = c # r" using a by simp
          note e this
          then show ?thesis using Cons Some True less [of r "c # bef"] by simp
        next
          case g: False
          then show ?thesis using Cons Some a by simp
        qed
      qed
    qed
  qed
qed

section \<open>Facts about the patterns of the Markdown rewriter\<close>

text \<open>Where a match of each pattern can start, and what it must contain.\<close>

lemma heading_needs:
  "match_at re_heading pv r = Some st \<Longrightarrow> at_bol True pv \<and> r \<noteq> [] \<and> hd r = CHR ''#''"
  by (cases r) (auto simp: match_at_def re_heading_def split: if_splits)

lemma quote_needs:
  "match_at re_quote pv r = Some st \<Longrightarrow> at_bol True pv \<and> r \<noteq> [] \<and> hd r = CHR ''>''"
  by (cases r) (auto simp: match_at_def re_quote_def split: if_splits)

lemma ordered_needs:
  "match_at re_ordered pv r = Some st \<Longrightarrow> at_bol True pv \<and> r \<noteq> [] \<and> DecimalDigit (hd r)"
  by (cases r) (auto simp: match_at_def re_ordered_def split: if_splits)

lemma bold_needs: "match_at re_bold pv r = Some st \<Longrightarrow> \<exists>x\<in>set r. x = CHR ''*''"
  by (cases r) (auto simp: match_at_def re_bold_def split: if_splits)

lemma link_needs: "match_at re_link pv r = Some st \<Longrightarrow> \<exists>x\<in>set r. x = CHR ''[''"
  by (cases r) (auto simp: match_at_def re_link_def split: if_splits)

lemma code_plain_needs: "match_at re_code_plain pv r = Some st \<Longrightarrow> \<exists>x\<in>set r. x = CHR 0x0A"
proof -
  assume a: "match_at re_code_plain pv r = Some st"
  then obtain r' where "r = CHR 0x60 # CHR 0x60 # CHR 0x60 # CHR 0x0A # r'"
    by (cases r; cases "tl r"; cases "tl (tl r)"; cases "tl (tl (tl r))")
       (auto simp: match_at_def re_code_plain_def split: if_splits)
  then show ?thesis by simp
qed

lemma code_lang_needs: "match_at re_code_lang pv r = Some st \<Longrightarrow> \<exists>x\<in>set r. x = CHR 0x0A"
proof -
  assume a: "match_at re_code_lang pv r = Some st"
  then obtain r1 where r: "r = CHR 0x60 # CHR 0x60 # CHR 0x60 # r1"
    by (cases r; cases "tl r"; cases "tl (tl r)")
       (auto simp: match_at_def re_code_lang_def split: if_splits)
  let ?k = "matcher False [Close 1, Lit (Ch CHR 0x0A),
              Open 2, Rep False 0 None (OneOf [Space, NonSpace]), Close 2,
              Lit (Ch CHR 0x60), Lit (Ch CHR 0x60), Lit (Ch CHR 0x60)] Some"
  have "rep True Word 1 None ?k (MState (Some CHR 0x60) r1 [(1, r1)] []) = Some st"
    using a r by (simp add: match_at_def re_code_lang_def)
  from rep_Some [OF this] obtain m r' where
    m: "r1 = m @ r'" and k: "?k (MState (lastc (Some CHR 0x60) m) r' [(1, r1)] []) = Some st"
    by blast
  from k have "r' \<noteq> [] \<and> hd r' = CHR 0x0A"
    by (cases r') (auto split: if_splits)
  then show ?thesis using r m by (cases r') auto
qed

lemma italic_match:
  assumes "match_at re_italic pv r = Some st"
  shows "\<exists>g. r = CHR ''_'' # g @ CHR ''_'' # rest st \<and> caps st = [(1, g)]"
proof -
  from assms obtain r1 where r: "r = CHR ''_'' # r1"
    by (cases r) (auto simp: match_at_def re_italic_def split: if_splits)
  let ?k = "matcher False [Close 1, Lit (Ch CHR ''_'')] Some"
  have "rep False Dot 0 None ?k (MState (Some CHR ''_'') r1 [(1, r1)] []) = Some st"
    using assms r by (simp add: match_at_def re_italic_def)
  from rep_Some [OF this] obtain m r' where
    m: "r1 = m @ r'" and k: "?k (MState (lastc (Some CHR ''_'') m) r' [(1, r1)] []) = Some st"
    by blast
  from k m show ?thesis using r by (cases r') (auto split: if_splits)
qed

lemma inline_code_match:
  assumes "match_at re_inline_code pv r = Some st"
  shows "\<exists>g. r = CHR 0x60 # g @ CHR 0x60 # rest st \<and> caps st = [(1, g)]"
proof -
  from assms obtain r1 where r: "r = CHR 0x60 # r1"
    by (cases r) (auto simp: match_at_def re_inline_code_def split: if_splits)
  let ?k = "matcher False [Close 1, Lit (Ch CHR 0x60)] Some"
  have "rep True (NoneOf [Ch CHR 0x60]) 1 None ?k (MState (Some CHR 0x60) r1 [(1, r1)] []) = Some st"
    using assms r by (simp add: match_at_def re_inline_code_def)
  from rep_Some [OF this] obtain m r' where
    m: "r1 = m @ r'" and k: "?k (MState (lastc (Some CHR 0x60) m) r' [(1, r1)] []) = Some st"
    by blast
  from k m show ?thesis using r by (cases r') (auto split: if_splits)
qed

lemma italic_id: "replace re_italic ''_$1_'' s = s"
  unfolding replace_def
proof (rule replace_from_id)
  fix bef r st
  assume "match_at re_italic (prevc bef) r = Some st"
  from italic_match [OF this] obtain g where
    g: "r = CHR ''_'' # g @ CHR ''_'' # rest st" "caps st = [(1, g)]" by blast
  have n: "ngroups re_italic = 1" by (simp add: ngroups_def re_italic_def)
  show "expand ''_$1_'' (mk_match re_italic bef r st) @ rest st = r"
    using g by (simp add: mk_match_def n group_def DecimalDigit_def digit_val_def)
qed

lemma inline_code_id: "replace re_inline_code (CHR 0x60 # ''$1'' @ [CHR 0x60]) s = s"
  unfolding replace_def
proof (rule replace_from_id)
  fix bef r st
  assume "match_at re_inline_code (prevc bef) r = Some st"
  from inline_code_match [OF this] obtain g where
    g: "r = CHR 0x60 # g @ CHR 0x60 # rest st" "caps st = [(1, g)]" by blast
  have n: "ngroups re_inline_code = 1" by (simp add: ngroups_def re_inline_code_def)
  show "expand (CHR 0x60 # ''$1'' @ [CHR 0x60]) (mk_match re_inline_code bef r st) @ rest st = r"
    using g by (simp add: mk_match_def n group_def DecimalDigit_def digit_val_def)
qed

lemma table_id: "replace re_table ''|\<newline>|'' s = s"
  unfolding replace_def
proof (rule replace_from_id)
  fix bef r st
  assume a: "match_at re_table (prevc bef) r = Some st"
  then have "r = CHR ''|'' # CHR 0x0A # CHR ''|'' # rest st"
    by (cases r; cases "tl r"; cases "tl (tl r)")
       (auto simp: match_at_def re_table_def split: if_splits)
  then show "expand ''|\<newline>|'' (mk_match re_table bef r st) @ rest st = r"
    by simp
qed

section \<open>Properties of the Markdown rewriter: headings\<close>

lemma replace_from_global_match:
  assumes "match_at re (prevc bef) r = Some st" "global re" "length (rest st) < length r"
  shows "replace_from re f bef r =
           f (mk_match re bef r st)
           @ replace_from re f (rev (matched (mk_match re bef r st)) @ bef) (rest st)"
  using assms by (cases r) simp_all

lemma no_start_line:
  "\<forall>c\<in>set s. \<not> LineTerminator c \<Longrightarrow> \<not> LineTerminator c0 \<Longrightarrow> no_start Q (Some c0) s"
  by (induction s arbitrary: c0) auto

lemma lastc_not_terminator:
  "\<forall>c\<in>set s. \<not> LineTerminator c \<Longrightarrow> s \<noteq> [] \<Longrightarrow> \<exists>c. lastc pv s = Some c \<and> \<not> LineTerminator c"
  by (induction s arbitrary: pv) (auto, metis lastc.simps(1) list.exhaust lastc.simps(2))

lemmas rep_greedy_all = rep_greedy_run [where ys = "[]", simplified]

lemma heading_match:
  assumes n: "1 \<le> n" "n \<le> 6"
      and ws: "ws \<noteq> []" "\<forall>c\<in>set ws. WhiteSpace c"
      and tx: "text \<noteq> []" "\<not> WhiteSpace (hd text)" "\<forall>c\<in>set text. \<not> LineTerminator c"
  shows "match_at re_heading None (replicate n CHR ''#'' @ ws @ text)
           = Some (MState (lastc None (replicate n CHR ''#'' @ ws @ text)) []
                     [(2, text), (1, replicate n CHR ''#'' @ ws @ text)]
                     [(2, text), (1, replicate n CHR ''#'')])"
proof -
  let ?h = "replicate n CHR ''#''"
  let ?r = "?h @ ws @ text"
  let ?st = "MState (lastc None ?r) [] [(2, text), (1, ?r)] [(2, text), (1, ?h)]"
  let ?k3 = "matcher True [Close 2, Eol] Some"
  let ?k2 = "matcher True [Open 2, Rep True 1 None Dot, Close 2, Eol] Some"
  let ?k1 = "matcher True [Close 1, Rep True 1 None Space, Open 2, Rep True 1 None Dot, Close 2, Eol] Some"
  have k3: "\<And>pv. ?k3 (MState pv [] [(2, text), (1, ?r)] [(1, ?h)])
              = Some (MState pv [] [(2, text), (1, ?r)] [(2, text), (1, ?h)])"
    by simp
  have k2: "\<And>pv. ?k2 (MState pv text [(1, ?r)] [(1, ?h)])
              = Some (MState (lastc pv text) [] [(2, text), (1, ?r)] [(2, text), (1, ?h)])"
  proof -
    fix pv
    have "rep True Dot 1 None ?k3 (MState pv text [(2, text), (1, ?r)] [(1, ?h)])
            = Some (MState (lastc pv text) [] [(2, text), (1, ?r)] [(2, text), (1, ?h)])"
      using tx by (intro rep_greedy_all) (auto simp: Suc_le_eq)
    then show "?k2 (MState pv text [(1, ?r)] [(1, ?h)])
              = Some (MState (lastc pv text) [] [(2, text), (1, ?r)] [(2, text), (1, ?h)])"
      by simp
  qed
  have k1: "\<And>pv. ?k1 (MState pv (ws @ text) [(1, ?r)] [])
              = Some (MState (lastc (lastc pv ws) text) [] [(2, text), (1, ?r)] [(2, text), (1, ?h)])"
  proof -
    fix pv
    have "rep True Space 1 None ?k2 (MState pv (ws @ text) [(1, ?r)] [(1, ?h)])
            = Some (MState (lastc (lastc pv ws) text) [] [(2, text), (1, ?r)] [(2, text), (1, ?h)])"
      using ws tx k2 by (intro rep_greedy_run) (auto simp: Suc_le_eq)
    then show "?k1 (MState pv (ws @ text) [(1, ?r)] [])
              = Some (MState (lastc (lastc pv ws) text) [] [(2, text), (1, ?r)] [(2, text), (1, ?h)])"
      by simp
  qed
  have nh: "\<not> cls_mem (Ch CHR ''#'') (hd (ws @ text))"
    using ws by (cases ws) (auto simp: WhiteSpace_def)
  have "rep True (Ch CHR ''#'') 1 (Some 6) ?k1 (MState None (?h @ ws @ text) [(1, ?r)] []) = Some ?st"
    using n nh k1 by (intro rep_greedy_run) auto
  then show ?thesis by (simp add: match_at_def re_heading_def)
qed

lemma heading_step:
  assumes n: "1 \<le> n" "n \<le> 6"
      and ws: "ws \<noteq> []" "\<forall>c\<in>set ws. WhiteSpace c"
      and tx: "text \<noteq> []" "\<not> WhiteSpace (hd text)" "\<forall>c\<in>set text. \<not> LineTerminator c"
  shows "replace_fn re_heading (heading_repl options) (replicate n CHR ''#'' @ ws @ text)
           = replicate (n + or_zero (headingLevel options)) CHR ''='' @ '' '' @ text"
proof -
  let ?r = "replicate n CHR ''#'' @ ws @ text"
  let ?st = "MState (lastc None ?r) [] [(2, text), (1, ?r)] [(2, text), (1, replicate n CHR ''#'')]"
  have m: "match_at re_heading (prevc []) ?r = Some ?st"
    using heading_match [OF assms] by simp
  have g: "global re_heading" by (simp add: re_heading_def)
  have l: "length (rest ?st) < length ?r" using tx by simp
  have ng: "ngroups re_heading = 2" by (simp add: ngroups_def re_heading_def)
  have f: "heading_repl options (mk_match re_heading [] ?r ?st)
             = replicate (n + or_zero (headingLevel options)) CHR ''='' @ '' '' @ text"
    by (simp add: heading_repl_def mk_match_def ng group_def upt_rec)
  have e: "replace_from re_heading (heading_repl options) bef [] = []" for bef
  proof (cases "match_at re_heading (prevc bef) []")
    case None
    then show ?thesis by simp
  next
    case (Some a)
    from heading_needs [OF this] show ?thesis by simp
  qed
  show ?thesis
    unfolding replace_fn_def
    by (subst replace_from_global_match [OF m g l], subst f, simp only: mstate.sel e append_Nil2)
qed

lemma bold_absent: "CHR ''*'' \<notin> set s \<Longrightarrow> replace re_bold t s = s"
  unfolding replace_def
  by (rule replace_from_absent [where Q = "\<lambda>x. x = CHR ''*''"]) (auto dest: bold_needs)

lemma link_absent: "CHR ''['' \<notin> set s \<Longrightarrow> replace re_link t s = s"
  unfolding replace_def
  by (rule replace_from_absent [where Q = "\<lambda>x. x = CHR ''[''"]) (auto dest: link_needs)

lemma code_lang_absent: "CHR 0x0A \<notin> set s \<Longrightarrow> replace_fn re_code_lang f s = s"
  unfolding replace_fn_def
  by (rule replace_from_absent [where Q = "\<lambda>x. x = CHR 0x0A"]) (auto dest: code_lang_needs)

lemma code_plain_absent: "CHR 0x0A \<notin> set s \<Longrightarrow> replace re_code_plain t s = s"
  unfolding replace_def
  by (rule replace_from_absent [where Q = "\<lambda>x. x = CHR 0x0A"]) (auto dest: code_plain_needs)

lemma quote_no_start: "no_start (\<lambda>x. x = CHR ''>'') None s \<Longrightarrow> replace re_quote t s = s"
  unfolding replace_def
  by (rule replace_from_no_start [where Q = "\<lambda>x. x = CHR ''>''"]) (auto dest: quote_needs)

lemma ordered_no_start: "no_start DecimalDigit None s \<Longrightarrow> replace re_ordered t s = s"
  unfolding replace_def
  by (rule replace_from_no_start [where Q = DecimalDigit]) (auto dest: ordered_needs)

text \<open>
  C1, as the code has it. A Markdown heading line is 1 to 6 \<^verbatim>\<open>#\<close> characters, whitespace,
  then a text that does not start with whitespace. When the text has no \<^verbatim>\<open>*\<close> and no
  \<^verbatim>\<open>[\<close>, \<^verbatim>\<open>markdownToAsciidoc\<close> rewrites the line to level plus \<^verbatim>\<open>headingLevel\<close> characters
  \<^verbatim>\<open>=\<close>, one space and the text as it was, for every \<^verbatim>\<open>headingLevel\<close>. (The later
  substitutions of the chain run over the heading too: they rewrite bold and links in it.)
\<close>

theorem heading_rewritten:
  assumes n: "1 \<le> n" "n \<le> 6"
      and ws: "ws \<noteq> []" "\<forall>c\<in>set ws. WhiteSpace c"
      and tx: "text \<noteq> []" "\<not> WhiteSpace (hd text)" "\<forall>c\<in>set text. \<not> LineTerminator c"
      and plain: "CHR ''*'' \<notin> set text" "CHR ''['' \<notin> set text"
  shows "markdownToAsciidoc (replicate n CHR ''#'' @ ws @ text) options
           = replicate (n + or_zero (headingLevel options)) CHR ''='' @ '' '' @ text"
proof -
  let ?s = "replicate (n + or_zero (headingLevel options)) CHR ''='' @ '' '' @ text"
  obtain m where m: "n + or_zero (headingLevel options) = Suc m"
    using n by (cases "n + or_zero (headingLevel options)") auto
  have nl: "CHR 0x0A \<notin> set ?s" using tx by (auto simp: LineTerminator_def)
  have eq: "\<not> LineTerminator CHR ''=''" "\<not> LineTerminator CHR '' ''"
    by (simp_all add: LineTerminator_def)
  have lt: "\<forall>c\<in>set (replicate m CHR ''='' @ '' '' @ text). \<not> LineTerminator c"
    using tx(3) eq by auto
  have s: "?s = CHR ''='' # replicate m CHR ''='' @ '' '' @ text" by (simp add: m)
  have q: "no_start (\<lambda>x. x = CHR ''>'') None ?s"
    unfolding s using no_start_line [OF lt eq(1), of "\<lambda>x. x = CHR ''>''"] by simp
  have d: "no_start DecimalDigit None ?s"
    unfolding s using no_start_line [OF lt eq(1), of DecimalDigit] by (simp add: DecimalDigit_def)
  have b: "CHR ''*'' \<notin> set ?s" using plain by auto
  have l: "CHR ''['' \<notin> set ?s" using plain by auto
  show ?thesis
    unfolding markdownToAsciidoc_def Let_def
    by (simp only: heading_step [OF n ws tx] bold_absent [OF b] italic_id
        code_lang_absent [OF nl] code_plain_absent [OF nl] inline_code_id
        quote_no_start [OF q] link_absent [OF l] ordered_no_start [OF d])
qed

theorem heading_rewritten_witness:
  "markdownToAsciidoc ''## Heading 2'' (default_options \<lparr> headingLevel := Some 3 \<rparr>) = ''===== Heading 2''"
proof -
  have "markdownToAsciidoc (replicate 2 CHR ''#'' @ '' '' @ ''Heading 2'') (default_options \<lparr> headingLevel := Some 3 \<rparr>)
      = replicate (2 + or_zero (headingLevel (default_options \<lparr> headingLevel := Some 3 \<rparr>))) CHR ''='' @ '' '' @ ''Heading 2''"
    by (rule heading_rewritten) (simp_all add: WhiteSpace_def LineTerminator_def)
  then show ?thesis by (simp add: or_zero_def numeral_2_eq_2 numeral_eq_Suc)
qed

text \<open>
  C1 as stated fails: a heading whose text is bold comes out with the bold markers
  rewritten, not with the original text.
\<close>

theorem heading_text_rewritten:
  "markdownToAsciidoc ''# **a**'' default_options = ''= *a*''"
  by code_simp

section \<open>Properties of the post-processing: line breaks and attributes\<close>

text \<open>
  C2. With \<^verbatim>\<open>preserveLineBreaks: false\<close> two consecutive lines that start with none of
  \<^verbatim>\<open>=\<close>, \<^verbatim>\<open>-\<close>, \<^verbatim>\<open>*\<close>, \<^verbatim>\<open>.\<close> and are not blank should become one line. The code does
  not join them when the first ends with a full stop: the pattern tests the character
  before the line break, not the first character of the line.
\<close>

theorem join_misses_plain_lines:
  "postProcessAsciidoc ''= Document Title\<newline>\<newline>First sentence.\<newline>Second sentence.''
       (default_options \<lparr> preserveLineBreaks := Some False \<rparr>)
     = ''= Document Title\<newline>\<newline>First sentence.\<newline>Second sentence.''"
  by code_simp

text \<open>
  C7. With \<^verbatim>\<open>includeAttributes: true\<close> and the attributes author and email, the output
  should have the lines \<^verbatim>\<open>:author: A\<close> and \<^verbatim>\<open>:email: b@x.com\<close> after the first heading
  line. With the line breaks not preserved (the default) the code joins the heading and
  every attribute line into one line.
\<close>

theorem attribute_lines_joined:
  "convert_text ''# Test Document\<newline>\<newline>This is a test paragraph.'' author_options
     = ''= Test Document Author Name <author@example.com> :toc: left :icons: font :source-highlighter: highlight.js :author: A :email: b@x.com\<newline>\<newline>\<newline>This is a test paragraph.''"
  by code_simp

section \<open>Properties of the conversion: fenced code blocks\<close>

lemma replace_from_skip:
  assumes "\<And>pv r st. match_at re pv r = Some st \<Longrightarrow> r \<noteq> [] \<and> Q (hd r)"
      and "\<forall>x\<in>set xs. \<not> Q x"
  shows "replace_from re f bef (xs @ ys) = xs @ replace_from re f (rev xs @ bef) ys"
  using assms(2)
proof (induction xs arbitrary: bef)
  case Nil
  then show ?case by simp
next
  case (Cons c xs)
  have "match_at re (prevc bef) (c # xs @ ys) = None"
    using assms(1) [of "prevc bef" "c # xs @ ys"] Cons.prems
    by (cases "match_at re (prevc bef) (c # xs @ ys)") auto
  then show ?case using Cons by simp
qed

lemma replace_from_skip_bol:
  assumes "\<And>pv r st. match_at re pv r = Some st \<Longrightarrow> at_bol True pv \<and> r \<noteq> [] \<and> Q (hd r)"
      and "no_start Q (prevc bef) xs"
  shows "replace_from re f bef (xs @ ys) = xs @ replace_from re f (rev xs @ bef) ys"
  using assms(2)
proof (induction xs arbitrary: bef)
  case Nil
  then show ?case by simp
next
  case (Cons c xs)
  have "match_at re (prevc bef) (c # xs @ ys) = None"
    using assms(1) [of "prevc bef" "c # xs @ ys"] Cons.prems
    by (cases "match_at re (prevc bef) (c # xs @ ys)") auto
  moreover have "no_start Q (prevc (c # bef)) xs" using Cons.prems by simp
  ultimately show ?case using Cons.IH by simp
qed

lemma no_start_mono: "no_start Q pv s \<Longrightarrow> (\<And>c. P c \<Longrightarrow> Q c) \<Longrightarrow> no_start P pv s"
  by (induction s arbitrary: pv) auto

lemma match_None_first:
  assumes "\<And>st. match_at re pv r = Some st \<Longrightarrow> r \<noteq> [] \<and> Q (hd r)"
      and "r = [] \<or> \<not> Q (hd r)"
  shows "match_at re pv r = None"
  using assms by (cases "match_at re pv r") auto

lemma code_plain_first:
  "match_at re_code_plain pv r = Some st \<Longrightarrow> r \<noteq> [] \<and> hd r = CHR 0x60"
  by (cases r) (auto simp: match_at_def re_code_plain_def split: if_splits)

lemma code_lang_first:
  "match_at re_code_lang pv r = Some st \<Longrightarrow> r \<noteq> [] \<and> hd r = CHR 0x60"
  by (cases r) (auto simp: match_at_def re_code_lang_def split: if_splits)

lemma link_first:
  "match_at re_link pv r = Some st \<Longrightarrow> r \<noteq> [] \<and> hd r = CHR ''[''"
  by (cases r) (auto simp: match_at_def re_link_def split: if_splits)

lemma word_not_special:
  assumes "WordCharacter c"
  shows "c \<noteq> CHR ''#''" "c \<noteq> CHR ''*''" "c \<noteq> CHR 0x60" "c \<noteq> CHR ''>''" "c \<noteq> CHR ''[''"
        "c \<noteq> CHR '']''" "c \<noteq> CHR 0x0A" "\<not> LineTerminator c"
  using assms by (auto simp: WordCharacter_def LineTerminator_def)

lemma any_char: "cls_mem (OneOf [Space, NonSpace]) c"
  by simp

lemma code_lang_match:
  assumes lang: "lang \<noteq> []" "\<forall>c\<in>set lang. WordCharacter c"
      and code: "CHR 0x60 \<notin> set code"
  shows "match_at re_code_lang pv (fence @ lang @ CHR 0x0A # code @ fence)
           = Some (MState (Some CHR 0x60) []
                     [(2, code @ fence), (1, lang @ CHR 0x0A # code @ fence)]
                     [(2, code), (1, lang)])"
proof -
  let ?r1 = "lang @ CHR 0x0A # code @ fence"
  let ?os1 = "[(1, ?r1)]"
  let ?os2 = "[(2, code @ fence), (1, ?r1)]"
  let ?st = "MState (Some CHR 0x60) [] ?os2 [(2, code), (1, lang)]"
  let ?k2 = "matcher False [Close 2, Lit (Ch CHR 0x60), Lit (Ch CHR 0x60), Lit (Ch CHR 0x60)] Some"
  let ?k1 = "matcher False [Close 1, Lit (Ch CHR 0x0A), Open 2,
               Rep False 0 None (OneOf [Space, NonSpace]), Close 2,
               Lit (Ch CHR 0x60), Lit (Ch CHR 0x60), Lit (Ch CHR 0x60)] Some"
  have k2f: "\<And>pv' c r'. c \<in> set code \<Longrightarrow> ?k2 (MState pv' (c # r') ?os2 [(1, lang)]) = None"
    using code by auto
  have k2s: "\<And>pv'. ?k2 (MState pv' fence ?os2 [(1, lang)]) = Some ?st"
    by (simp add: fence_def)
  have lz: "\<And>pv'. rep False (OneOf [Space, NonSpace]) 0 None ?k2 (MState pv' (code @ fence) ?os2 [(1, lang)]) = Some ?st"
    using k2f k2s any_char by (intro rep_lazy_skip) blast+
  have k1: "\<And>pv'. ?k1 (MState pv' (CHR 0x0A # code @ fence) ?os1 []) = Some ?st"
    using lz by simp
  have nw: "\<not> cls_mem Word (hd (CHR 0x0A # code @ fence))"
    by (simp add: WordCharacter_def)
  have "rep True Word 1 None ?k1 (MState (Some CHR 0x60) (lang @ CHR 0x0A # code @ fence) ?os1 []) = Some ?st"
    using lang nw k1 by (intro rep_greedy_run) (auto simp: Suc_le_eq)
  then show ?thesis by (simp add: match_at_def re_code_lang_def fence_def)
qed

lemma code_plain_match:
  assumes code: "CHR 0x60 \<notin> set code"
  shows "match_at re_code_plain pv (fence @ CHR 0x0A # code @ fence)
           = Some (MState (Some CHR 0x60) [] [(1, code @ fence)] [(1, code)])"
proof -
  let ?os = "[(1, code @ fence)]"
  let ?st = "MState (Some CHR 0x60) [] ?os [(1, code)]"
  let ?k = "matcher False [Close 1, Lit (Ch CHR 0x60), Lit (Ch CHR 0x60), Lit (Ch CHR 0x60)] Some"
  have kf: "\<And>pv' c r'. c \<in> set code \<Longrightarrow> ?k (MState pv' (c # r') ?os []) = None"
    using code by auto
  have ks: "\<And>pv'. ?k (MState pv' fence ?os []) = Some ?st"
    by (simp add: fence_def)
  have lz: "\<And>pv'. rep False (OneOf [Space, NonSpace]) 0 None ?k (MState pv' (code @ fence) ?os []) = Some ?st"
    using kf ks any_char by (intro rep_lazy_skip) blast+
  then show ?thesis by (simp add: match_at_def re_code_plain_def fence_def)
qed

lemma link_source_None:
  assumes lang: "\<forall>c\<in>set lang. WordCharacter c"
  shows "match_at re_link pv (''[source,'' @ lang @ CHR '']'' # CHR 0x0A # r) = None"
proof (cases "match_at re_link pv (''[source,'' @ lang @ CHR '']'' # CHR 0x0A # r)")
  case None
  then show ?thesis .
next
  case (Some st)
  define a where "a = ''source,'' @ lang"
  define t where "t = CHR '']'' # CHR 0x0A # r"
  let ?k = "matcher False [Close 1, Lit (Ch CHR '']''), Lit (Ch CHR ''(''),
              Open 2, Rep False 0 None Dot, Close 2, Lit (Ch CHR '')'')] Some"
  have "rep False Dot 0 None ?k (MState (Some CHR ''['') (a @ t) [(1, a @ t)] []) = Some st"
    using Some by (simp add: match_at_def re_link_def a_def t_def)
  from rep_Some [OF this] obtain m r' where
    m: "a @ t = m @ r'" and d: "\<forall>c\<in>set m. cls_mem Dot c"
    and k: "?k (MState (lastc (Some CHR ''['') m) r' [(1, a @ t)] []) = Some st"
    by blast
  from k obtain r'' where r': "r' = CHR '']'' # CHR ''('' # r''"
    by (cases r'; cases "tl r'") (auto split: if_splits)
  have a: "CHR '']'' \<notin> set a" using lang by (auto simp: a_def dest: word_not_special)
  have nl: "CHR 0x0A \<notin> set m" using d by (auto simp: LineTerminator_def)
  from m obtain us where
    "(a = m @ us \<and> us @ t = r') \<or> (a @ us = m \<and> t = us @ r')"
    unfolding append_eq_append_conv2 by blast
  then show ?thesis
  proof
    assume c1: "a = m @ us \<and> us @ t = r'"
    show ?thesis
    proof (cases us)
      case Nil
      with c1 r' show ?thesis by (simp add: t_def)
    next
      case (Cons u us')
      with c1 r' have "u = CHR '']''" by simp
      then have "CHR '']'' \<in> set a" using Cons c1 by simp
      with a show ?thesis by simp
    qed
  next
    assume c2: "a @ us = m \<and> t = us @ r'"
    show ?thesis
    proof (cases us)
      case Nil
      with c2 r' show ?thesis by (simp add: t_def)
    next
      case (Cons u us')
      show ?thesis
      proof (cases us')
        case Nil
        with c2 r' Cons show ?thesis by (simp add: t_def)
      next
        case c: (Cons v vs)
        with c2 Cons have "v = CHR 0x0A" by (simp add: t_def)
        then have "CHR 0x0A \<in> set m" using c2 Cons c by auto
        with nl show ?thesis by simp
      qed
    qed
  qed
qed

lemma heading_None:
  "c \<noteq> CHR ''#'' \<Longrightarrow> match_at re_heading pv (c # r) = None"
  "match_at re_heading pv [] = None"
  by (rule match_None_first [where Q = "\<lambda>x. x = CHR ''#''"]; auto dest: heading_needs)+

lemma quote_None:
  "c \<noteq> CHR ''>'' \<Longrightarrow> match_at re_quote pv (c # r) = None"
  "match_at re_quote pv [] = None"
  by (rule match_None_first [where Q = "\<lambda>x. x = CHR ''>''"]; auto dest: quote_needs)+

lemma ordered_None:
  "\<not> DecimalDigit c \<Longrightarrow> match_at re_ordered pv (c # r) = None"
  "match_at re_ordered pv [] = None"
  by (rule match_None_first [where Q = "DecimalDigit"]; auto dest: ordered_needs)+

lemma link_None:
  "c \<noteq> CHR ''['' \<Longrightarrow> match_at re_link pv (c # r) = None"
  "match_at re_link pv [] = None"
  by (rule match_None_first [where Q = "\<lambda>x. x = CHR ''[''"]; auto dest: link_first)+

lemma code_lang_None:
  "c \<noteq> CHR 0x60 \<Longrightarrow> match_at re_code_lang pv (c # r) = None"
  "match_at re_code_lang pv [] = None"
  by (rule match_None_first [where Q = "\<lambda>x. x = CHR 0x60"]; auto dest: code_lang_first)+

lemma code_plain_None:
  "c \<noteq> CHR 0x60 \<Longrightarrow> match_at re_code_plain pv (c # r) = None"
  "match_at re_code_plain pv [] = None"
  by (rule match_None_first [where Q = "\<lambda>x. x = CHR 0x60"]; auto dest: code_plain_first)+

lemma quiet_codeD:
  assumes "quiet_code code"
  shows "CHR 0x60 \<notin> set code" "CHR ''*'' \<notin> set code" "CHR ''['' \<notin> set code"
        "no_start (\<lambda>c. c = CHR ''#'') (Some CHR 0x0A) code"
        "no_start (\<lambda>c. c = CHR ''>'') (Some CHR 0x0A) code"
        "no_start DecimalDigit (Some CHR 0x0A) code"
  using assms by (auto simp: quiet_code_def elim: no_start_mono)

lemma heading_skip_code:
  assumes "quiet_code code" "prevc bef = Some CHR 0x0A"
  shows "replace_from re_heading f bef (code @ ys) = code @ replace_from re_heading f (rev code @ bef) ys"
  using quiet_codeD(4) [OF assms(1)] assms(2)
  by (intro replace_from_skip_bol [where Q = "\<lambda>c. c = CHR ''#''"]) (auto dest: heading_needs)

lemma quote_skip_code:
  assumes "quiet_code code" "prevc bef = Some CHR 0x0A"
  shows "replace_from re_quote f bef (code @ ys) = code @ replace_from re_quote f (rev code @ bef) ys"
  using quiet_codeD(5) [OF assms(1)] assms(2)
  by (intro replace_from_skip_bol [where Q = "\<lambda>c. c = CHR ''>''"]) (auto dest: quote_needs)

lemma ordered_skip_code:
  assumes "quiet_code code" "prevc bef = Some CHR 0x0A"
  shows "replace_from re_ordered f bef (code @ ys) = code @ replace_from re_ordered f (rev code @ bef) ys"
  using quiet_codeD(6) [OF assms(1)] assms(2)
  by (intro replace_from_skip_bol [where Q = DecimalDigit]) (auto dest: ordered_needs)

lemma link_skip:
  assumes "CHR ''['' \<notin> set xs"
  shows "replace_from re_link f bef (xs @ ys) = xs @ replace_from re_link f (rev xs @ bef) ys"
  using assms
  by (intro replace_from_skip [where Q = "\<lambda>c. c = CHR ''[''"]) (auto dest: link_first)

lemma code_lang_skip:
  assumes "CHR 0x60 \<notin> set xs"
  shows "replace_from re_code_lang f bef (xs @ ys) = xs @ replace_from re_code_lang f (rev xs @ bef) ys"
  using assms
  by (intro replace_from_skip [where Q = "\<lambda>c. c = CHR 0x60"]) (auto dest: code_lang_first)

lemma heading_skip_word:
  assumes "\<forall>c\<in>set xs. WordCharacter c"
  shows "replace_from re_heading f bef (xs @ ys) = xs @ replace_from re_heading f (rev xs @ bef) ys"
  using assms
  by (intro replace_from_skip [where Q = "\<lambda>c. c = CHR ''#''"])
     (auto dest: heading_needs word_not_special)

lemma quote_skip_word:
  assumes "\<forall>c\<in>set xs. WordCharacter c"
  shows "replace_from re_quote f bef (xs @ ys) = xs @ replace_from re_quote f (rev xs @ bef) ys"
  using assms
  by (intro replace_from_skip [where Q = "\<lambda>c. c = CHR ''>''"])
     (auto dest: quote_needs word_not_special)

lemma ordered_skip_word:
  assumes "\<forall>c\<in>set xs. WordCharacter c" "prevc bef = Some CHR '',''"
  shows "replace_from re_ordered f bef (xs @ ys) = xs @ replace_from re_ordered f (rev xs @ bef) ys"
proof -
  have "\<forall>c\<in>set xs. \<not> LineTerminator c" using assms(1) by (auto dest: word_not_special)
  moreover have "\<not> LineTerminator CHR '',''" by (simp add: LineTerminator_def)
  ultimately have "no_start DecimalDigit (prevc bef) xs"
    using assms(2) by (simp add: no_start_line)
  then show ?thesis
    by (intro replace_from_skip_bol [where Q = DecimalDigit]) (auto dest: ordered_needs)
qed

lemma code_lang_step:
  assumes lang: "lang \<noteq> []" "\<forall>c\<in>set lang. WordCharacter c"
      and code: "CHR 0x60 \<notin> set code"
  shows "replace_fn re_code_lang code_lang_repl (fence @ lang @ CHR 0x0A # code @ fence)
           = source_block lang code"
proof -
  let ?r = "fence @ lang @ CHR 0x0A # code @ fence"
  let ?st = "MState (Some CHR 0x60) [] [(2, code @ fence), (1, lang @ CHR 0x0A # code @ fence)]
               [(2, code), (1, lang)]"
  have m: "match_at re_code_lang (prevc []) ?r = Some ?st"
    by (rule code_lang_match [OF assms])
  have g: "global re_code_lang" by (simp add: re_code_lang_def)
  have l: "length (rest ?st) < length ?r" by (simp add: fence_def)
  have ng: "ngroups re_code_lang = 2" by (simp add: ngroups_def re_code_lang_def)
  have f: "code_lang_repl (mk_match re_code_lang [] ?r ?st) = source_block lang code"
    by (simp add: code_lang_repl_def source_block_def mk_match_def ng group_def upt_rec)
  have e: "replace_from re_code_lang code_lang_repl bef [] = []" for bef
    by (simp add: code_lang_None)
  show ?thesis
    unfolding replace_fn_def
    by (subst replace_from_global_match [OF m g l], subst f, simp only: mstate.sel e append_Nil2)
qed

lemma code_plain_step:
  assumes code: "CHR 0x60 \<notin> set code"
  shows "replace re_code_plain ''----\<newline>$1----\<newline>'' (fence @ CHR 0x0A # code @ fence)
           = plain_block code"
proof -
  let ?r = "fence @ CHR 0x0A # code @ fence"
  let ?st = "MState (Some CHR 0x60) [] [(1, code @ fence)] [(1, code)]"
  let ?f = "expand ''----\<newline>$1----\<newline>''"
  have m: "match_at re_code_plain (prevc []) ?r = Some ?st"
    by (rule code_plain_match [OF assms])
  have g: "global re_code_plain" by (simp add: re_code_plain_def)
  have l: "length (rest ?st) < length ?r" by (simp add: fence_def)
  have ng: "ngroups re_code_plain = 1" by (simp add: ngroups_def re_code_plain_def)
  have f: "?f (mk_match re_code_plain [] ?r ?st) = plain_block code"
    by (simp add: plain_block_def mk_match_def ng group_def DecimalDigit_def digit_val_def)
  have e: "replace_from re_code_plain ?f bef [] = []" for bef
    by (simp add: code_plain_None)
  show ?thesis
    unfolding replace_def
    by (subst replace_from_global_match [OF m g l], subst f, simp only: mstate.sel e append_Nil2)
qed

lemma not_digit_chars:
  "\<not> DecimalDigit CHR ''[''" "\<not> DecimalDigit CHR ''s''" "\<not> DecimalDigit CHR ''o''"
  "\<not> DecimalDigit CHR ''u''" "\<not> DecimalDigit CHR ''r''" "\<not> DecimalDigit CHR ''c''"
  "\<not> DecimalDigit CHR ''e''" "\<not> DecimalDigit CHR '',''" "\<not> DecimalDigit CHR '']''"
  "\<not> DecimalDigit CHR 0x0A" "\<not> DecimalDigit CHR ''-''" "\<not> DecimalDigit CHR 0x60"
  by (simp_all add: DecimalDigit_def)

lemma heading_fenced_lang:
  assumes "\<forall>c\<in>set lang. WordCharacter c" "quiet_code code"
  shows "replace_fn re_heading f (fence @ lang @ CHR 0x0A # code @ fence)
           = fence @ lang @ CHR 0x0A # code @ fence"
  by (simp add: replace_fn_def fence_def heading_None heading_skip_word [OF assms(1)]
      heading_skip_code [OF assms(2)])

lemma quote_source_block:
  assumes "\<forall>c\<in>set lang. WordCharacter c" "quiet_code code"
  shows "replace re_quote t (source_block lang code) = source_block lang code"
  by (simp add: replace_def source_block_def quote_None quote_skip_word [OF assms(1)]
      quote_skip_code [OF assms(2)])

lemma ordered_source_block:
  assumes "\<forall>c\<in>set lang. WordCharacter c" "quiet_code code"
  shows "replace re_ordered t (source_block lang code) = source_block lang code"
  by (simp add: replace_def source_block_def ordered_None not_digit_chars
      ordered_skip_word [OF assms(1)] ordered_skip_code [OF assms(2)])

lemma link_source_block:
  assumes "\<forall>c\<in>set lang. WordCharacter c" "quiet_code code"
  shows "replace re_link t (source_block lang code) = source_block lang code"
proof -
  have l: "CHR ''['' \<notin> set lang" using assms(1) by (auto dest: word_not_special)
  have c: "CHR ''['' \<notin> set code" using assms(2) by (rule quiet_codeD)
  show ?thesis
    by (simp add: replace_def source_block_def link_None
        link_source_None [OF assms(1), simplified] link_skip [OF l] link_skip [OF c])
qed

lemma heading_fenced_plain:
  assumes "quiet_code code"
  shows "replace_fn re_heading f (fence @ CHR 0x0A # code @ fence) = fence @ CHR 0x0A # code @ fence"
  by (simp add: replace_fn_def fence_def heading_None heading_skip_code [OF assms])

lemma code_lang_fenced_plain:
  assumes "quiet_code code"
  shows "replace_fn re_code_lang f (fence @ CHR 0x0A # code @ fence) = fence @ CHR 0x0A # code @ fence"
proof -
  have c: "CHR 0x60 \<notin> set code" using assms by (rule quiet_codeD)
  have n: "match_at re_code_lang pv (CHR 0x60 # CHR 0x60 # CHR 0x60 # CHR 0x0A # r) = None"
          "match_at re_code_lang pv (CHR 0x60 # CHR 0x60 # CHR 0x0A # r) = None"
          "match_at re_code_lang pv (CHR 0x60 # CHR 0x0A # r) = None"
          "match_at re_code_lang pv [CHR 0x60, CHR 0x60, CHR 0x60] = None"
          "match_at re_code_lang pv [CHR 0x60, CHR 0x60] = None"
          "match_at re_code_lang pv [CHR 0x60] = None" for pv r
    by (simp_all add: match_at_def re_code_lang_def WordCharacter_def)
  show ?thesis
    by (simp add: replace_fn_def fence_def n code_lang_None code_lang_skip [OF c])
qed

lemma quote_plain_block:
  assumes "quiet_code code"
  shows "replace re_quote t (plain_block code) = plain_block code"
  by (simp add: replace_def plain_block_def quote_None quote_skip_code [OF assms])

lemma ordered_plain_block:
  assumes "quiet_code code"
  shows "replace re_ordered t (plain_block code) = plain_block code"
  by (simp add: replace_def plain_block_def ordered_None not_digit_chars
      ordered_skip_code [OF assms])

lemma first_heading_title:
  "match_at re_first_heading None (''= Document Title'' @ CHR 0x0A # r)
     = Some (MState (Some CHR ''e'') (CHR 0x0A # r)
               [(1, ''= Document Title'' @ CHR 0x0A # r)] [(1, ''= Document Title'')])"
  by (simp add: match_at_def re_first_heading_def WhiteSpace_def LineTerminator_def)

lemma postProcess_keeps_block:
  assumes "\<not> startsWith d CHR ''=''" "preserveLineBreaks options = Some True"
  shows "\<exists>pre. postProcessAsciidoc d options = pre @ ''\<newline>\<newline>'' @ d"
proof (cases "truthy (includeAttributes options)")
  case False
  then show ?thesis using assms
    by (intro exI [of _ "''= Document Title''"])
       (simp add: postProcessAsciidoc_def truthy_def table_id)
next
  case True
  let ?t = "''$1\<newline>'' @ attribute_block options"
  let ?r = "''= Document Title'' @ CHR 0x0A # CHR 0x0A # d"
  let ?st = "MState (Some CHR ''e'') (CHR 0x0A # CHR 0x0A # d) [(1, ?r)] [(1, ''= Document Title'')]"
  have g: "\<not> global re_first_heading" by (simp add: re_first_heading_def)
  have m: "match_at re_first_heading None ?r = Some ?st"
    by (rule first_heading_title)
  have "replace re_first_heading ?t ?r = expand ?t (mk_match re_first_heading [] ?r ?st) @ CHR 0x0A # CHR 0x0A # d"
    using m g by (simp add: replace_def)
  then show ?thesis using assms True
    by (intro exI [of _ "expand ?t (mk_match re_first_heading [] ?r ?st)"])
       (simp add: postProcessAsciidoc_def truthy_def table_id)
qed

text \<open>
  C3, as the code has it. Take a fenced code block whose content no other substitution
  of the chain matches (\<open>quiet_code\<close>), and \<^verbatim>\<open>preserveLineBreaks: true\<close>. With a language
  tag the converted output (\<^verbatim>\<open>markdownToAsciidoc\<close>, then \<^verbatim>\<open>postProcessAsciidoc\<close>, for every
  value of the other options) ends with an empty line, the line \<^verbatim>\<open>[source,lang]\<close> and the
  \<^verbatim>\<open>----\<close> block with the content as it was; without a tag it ends with an empty line and
  the plain \<^verbatim>\<open>----\<close> block with the content as it was.
\<close>

theorem code_block_verbatim:
  assumes lang: "lang \<noteq> []" "\<forall>c\<in>set lang. WordCharacter c"
      and code: "quiet_code code"
      and plb: "preserveLineBreaks options = Some True"
  shows "(\<exists>pre. convert_text (fence @ lang @ ''\<newline>'' @ code @ fence) options
                  = pre @ ''\<newline>\<newline>'' @ source_block lang code)
       \<and> (\<exists>pre. convert_text (fence @ ''\<newline>'' @ code @ fence) options
                  = pre @ ''\<newline>\<newline>'' @ plain_block code)"
proof
  let ?d0 = "fence @ lang @ CHR 0x0A # code @ fence"
  have bt: "CHR 0x60 \<notin> set code" using code by (rule quiet_codeD)
  have st0: "CHR ''*'' \<notin> set ?d0"
    using lang quiet_codeD(2) [OF code] by (auto simp: fence_def dest: word_not_special)
  have bt1: "\<forall>x\<in>set (source_block lang code). \<not> x = CHR 0x60"
    using lang bt by (auto simp: source_block_def dest: word_not_special)
  have cp: "replace re_code_plain t (source_block lang code) = source_block lang code" for t
    unfolding replace_def
    by (rule replace_from_absent [where Q = "\<lambda>x. x = CHR 0x60", OF _ bt1])
       (metis code_plain_first hd_in_set)
  have md: "markdownToAsciidoc ?d0 options = source_block lang code"
    unfolding markdownToAsciidoc_def Let_def
    by (simp only: heading_fenced_lang [OF lang(2) code] bold_absent [OF st0] italic_id
        code_lang_step [OF lang bt] cp inline_code_id quote_source_block [OF lang(2) code]
        link_source_block [OF lang(2) code] ordered_source_block [OF lang(2) code])
  have ns: "\<not> startsWith (source_block lang code) CHR ''=''"
    by (simp add: source_block_def)
  show "\<exists>pre. convert_text (fence @ lang @ ''\<newline>'' @ code @ fence) options
                  = pre @ ''\<newline>\<newline>'' @ source_block lang code"
    using postProcess_keeps_block [OF ns plb] md by (simp add: convert_text_def)
next
  let ?d0 = "fence @ CHR 0x0A # code @ fence"
  have bt: "CHR 0x60 \<notin> set code" using code by (rule quiet_codeD)
  have st0: "CHR ''*'' \<notin> set ?d0"
    using quiet_codeD(2) [OF code] by (auto simp: fence_def)
  have lk: "CHR ''['' \<notin> set (plain_block code)"
    using quiet_codeD(3) [OF code] by (auto simp: plain_block_def)
  have md: "markdownToAsciidoc ?d0 options = plain_block code"
    unfolding markdownToAsciidoc_def Let_def
    by (simp only: heading_fenced_plain [OF code] bold_absent [OF st0] italic_id
        code_lang_fenced_plain [OF code] code_plain_step [OF bt] inline_code_id
        quote_plain_block [OF code] link_absent [OF lk] ordered_plain_block [OF code])
  have ns: "\<not> startsWith (plain_block code) CHR ''=''"
    by (simp add: plain_block_def)
  show "\<exists>pre. convert_text (fence @ ''\<newline>'' @ code @ fence) options
                  = pre @ ''\<newline>\<newline>'' @ plain_block code"
    using postProcess_keeps_block [OF ns plb] md by (simp add: convert_text_def)
qed

theorem code_block_verbatim_witness:
  "(\<exists>pre. convert_text (fence @ ''js'' @ ''\<newline>'' @ ''let x = 1;\<newline>'' @ fence)
             (default_options \<lparr> preserveLineBreaks := Some True \<rparr>)
           = pre @ ''\<newline>\<newline>'' @ source_block ''js'' ''let x = 1;\<newline>'')
   \<and> (\<exists>pre. convert_text (fence @ ''\<newline>'' @ ''let x = 1;\<newline>'' @ fence)
             (default_options \<lparr> preserveLineBreaks := Some True \<rparr>)
           = pre @ ''\<newline>\<newline>'' @ plain_block ''let x = 1;\<newline>'')"
proof -
  have l: "''js'' \<noteq> []" "\<forall>c\<in>set ''js''. WordCharacter c"
    by (simp_all add: WordCharacter_def)
  have c: "quiet_code ''let x = 1;\<newline>''"
    by (simp add: quiet_code_def DecimalDigit_def LineTerminator_def)
  have p: "preserveLineBreaks (default_options \<lparr> preserveLineBreaks := Some True \<rparr>) = Some True"
    by simp
  show ?thesis by (rule code_block_verbatim [OF l c p])
qed

text \<open>
  C3 as stated fails: the heading substitution runs over the code content too, and a
  shell comment in a code block comes out as a heading line.
\<close>

theorem code_comment_rewritten:
  "convert_text (fence @ ''sh\<newline># run\<newline>'' @ fence)
       (default_options \<lparr> preserveLineBreaks := Some True \<rparr>)
     = ''= Document Title\<newline>\<newline>[source,sh]\<newline>----\<newline>= run\<newline>----\<newline>''"
  by code_simp

end
